theory Spec2Isabelle
  imports Main "HOL-Library.Sublist" "HOL-Library.AList"
begin

section \<open>Python values, errors and string operations\<close>

text \<open>
  The forms of \<^verbatim>\<open>ws/forms.py\<close> handle dynamically typed values: an initial value is
  \<^verbatim>\<open>None\<close>, a \<^verbatim>\<open>bool\<close>, an \<^verbatim>\<open>int\<close> or a \<^verbatim>\<open>str\<close>. \<open>PyOther b\<close> stands for a value of
  any other type whose truth value is \<open>b\<close>; it is what the \<^verbatim>\<open>TypeError\<close> and
  \<^verbatim>\<open>AssertionError\<close> branches of the source are about.
\<close>

datatype pyval = PyNone | PyBool bool | PyInt int | PyStr string | PyOther bool

text \<open>
  Every exception the modelled methods can raise. \<open>ValidationError message code\<close> carries
  the message and the optional \<^verbatim>\<open>code=\<close> keyword.
\<close>

datatype error =
    ValidationError string "string option"
  | KeyError string
  | ValueError
  | TypeError
  | AssertionError

text \<open>Sequencing of fallible steps: the first error raised is the result.\<close>

definition bind_err :: "error + 'a \<Rightarrow> ('a \<Rightarrow> error + 'b) \<Rightarrow> error + 'b" where
  "bind_err r f = (case r of Inl e \<Rightarrow> Inl e | Inr x \<Rightarrow> f x)"

text \<open>Python's truth value of an object, as \<^verbatim>\<open>if initial:\<close> tests it.\<close>

fun truthy :: "pyval \<Rightarrow> bool" where
  "truthy PyNone = False"
| "truthy (PyBool b) = b"
| "truthy (PyInt n) = (n \<noteq> 0)"
| "truthy (PyStr s) = (s \<noteq> [])"
| "truthy (PyOther b) = b"

text \<open>
  \<^verbatim>\<open>str.lower()\<close>: the letters A to Z are mapped to a to z. Strings are lists of 8-bit
  characters here, and characters outside ASCII are left as they are.
\<close>

definition lower_char :: "char \<Rightarrow> char" where
  "lower_char c =
     (let n = (of_char c :: nat) in if 65 \<le> n \<and> n \<le> 90 then char_of (n + 32) else c)"

definition str_lower :: "string \<Rightarrow> string" where
  "str_lower s = map lower_char s"

text \<open>\<^verbatim>\<open>s.endswith(suffix)\<close>.\<close>

definition endswith :: "string \<Rightarrow> string \<Rightarrow> bool" where
  "endswith s suf = (length suf \<le> length s \<and> drop (length s - length suf) s = suf)"

text \<open>
  Free text, the notes of a trip and of a signup, is a list of Unicode code points, so
  that every character Python counts as whitespace can occur in it. \<^verbatim>\<open>str.isspace()\<close>
  holds of a character at the code points 9 to 13, 28 to 32, 133 (U+0085), 160 (U+00A0),
  5760 (U+1680), 8192 to 8202 (U+2000 to U+200A), 8232, 8233 (U+2028, U+2029),
  8239 (U+202F), 8287 (U+205F) and 12288 (U+3000), and at no other.
  \<^verbatim>\<open>str.strip()\<close> removes the leading and the trailing characters of this kind.
\<close>

type_synonym unicode = "nat list"

definition isspace :: "nat \<Rightarrow> bool" where
  "isspace c =
     ((9 \<le> c \<and> c \<le> 13) \<or> (28 \<le> c \<and> c \<le> 32) \<or> c = 133 \<or> c = 160 \<or> c = 5760 \<or>
      (8192 \<le> c \<and> c \<le> 8202) \<or> c = 8232 \<or> c = 8233 \<or> c = 8239 \<or> c = 8287 \<or>
      c = 12288)"

definition str_strip :: "unicode \<Rightarrow> unicode" where
  "str_strip s = rev (dropWhile isspace (rev (dropWhile isspace s)))"

text \<open>\<^verbatim>\<open>sep.join(xs)\<close>.\<close>

fun str_join :: "string \<Rightarrow> string list \<Rightarrow> string" where
  "str_join sep [] = []"
| "str_join sep [x] = x"
| "str_join sep (x # y # ys) = x @ sep @ str_join sep (y # ys)"

text \<open>\<^verbatim>\<open>str(n)\<close> for an integer, as an f-string formats it: decimal, with a leading minus sign.\<close>

definition digit_char :: "nat \<Rightarrow> char" where
  "digit_char d =
     (if d = 0 then CHR ''0'' else if d = 1 then CHR ''1'' else if d = 2 then CHR ''2''
      else if d = 3 then CHR ''3'' else if d = 4 then CHR ''4'' else if d = 5 then CHR ''5''
      else if d = 6 then CHR ''6'' else if d = 7 then CHR ''7'' else if d = 8 then CHR ''8''
      else CHR ''9'')"

fun str_of_nat :: "nat \<Rightarrow> string" where
  "str_of_nat n =
     (if n < 10 then [digit_char n] else str_of_nat (n div 10) @ [digit_char (n mod 10)])"

declare str_of_nat.simps [simp del]

definition str_of_int :: "int \<Rightarrow> string" where
  "str_of_int i = (if i < 0 then CHR ''-'' # str_of_nat (nat (- i)) else str_of_nat (nat i))"

text \<open>
  The reading of a decimal numeral, to say what \<open>str_of_int\<close> produces: the characters
  0 to 9, and the number a string of them denotes, most significant digit first.
\<close>

definition is_digit :: "char \<Rightarrow> bool" where
  "is_digit c = (48 \<le> (of_char c :: nat) \<and> (of_char c :: nat) \<le> 57)"

definition decimal_value :: "string \<Rightarrow> nat" where
  "decimal_value s = foldl (\<lambda>acc c. 10 * acc + ((of_char c :: nat) - 48)) 0 s"

section \<open>Persisted entities the forms read\<close>

text \<open>
  The models live outside this module; the records hold the attributes the forms read.
  A queryset is the list of its rows. \<open>trip_pk = None\<close> is a trip that was never saved.
\<close>

record emailaddress =
  email :: string
  verified :: bool

record user =
  emailaddress_set :: "emailaddress list"

record participant =
  par_pk :: int
  par_name :: string
  par_email :: string
  par_affiliation :: string
  par_annual_dues :: int

record signup =
  on_trip :: bool

record trip =
  trip_pk :: "int option"
  trip_notes :: unicode
  signup_set :: "signup list"
  trip_leaders :: "participant list"

section \<open>ParticipantForm\<close>

text \<open>
  \<^verbatim>\<open>ParticipantForm.__init__\<close> stores
  \<^verbatim>\<open>user.emailaddress_set.filter(verified=True).values_list("email", flat=True)\<close>.
\<close>

definition verified_emails :: "user \<Rightarrow> string list" where
  "verified_emails u = map email (filter verified (emailaddress_set u))"

text \<open>
  \<^verbatim>\<open>ParticipantForm.clean_affiliation\<close>. The two student codes are constants of the
  external package \<^verbatim>\<open>mitoc_const\<close> and are parameters here; \<open>affiliation\<close> is
  \<^verbatim>\<open>self.cleaned_data["affiliation"]\<close>, which the framework has stored before it calls
  the method.
\<close>

definition clean_affiliation :: "string \<Rightarrow> string \<Rightarrow> string list \<Rightarrow> string \<Rightarrow> error + string" where
  "clean_affiliation MIT_UNDERGRAD_CODE MIT_GRAD_STUDENT_CODE emails affiliation =
     (let mit_student_codes = {MIT_UNDERGRAD_CODE, MIT_GRAD_STUDENT_CODE} in
      if affiliation \<notin> mit_student_codes then Inr affiliation
      else if \<not> list_ex (\<lambda>e. endswith (str_lower e) ''mit.edu'') emails then
        Inl (ValidationError ''MIT email address required for student affiliation!''
               (Some ''lacks_mit_email''))
      else Inr affiliation)"

text \<open>
  The reading of "an @mit.edu address" in the specification: an address whose domain is
  \<^verbatim>\<open>mit.edu\<close>, compared without regard to case.
\<close>

definition spec_at_mit_edu_address :: "string \<Rightarrow> bool" where
  "spec_at_mit_edu_address e = endswith (str_lower e) ''@mit.edu''"

text \<open>
  A valid MIT email address, as the docstring of \<^verbatim>\<open>clean_affiliation\<close> asks for one: an
  address at \<^verbatim>\<open>mit.edu\<close> or at one of its sub-domains, compared without regard to case.
\<close>

definition mit_domain_address :: "string \<Rightarrow> bool" where
  "mit_domain_address e =
     (endswith (str_lower e) ''@mit.edu'' \<or> endswith (str_lower e) ''.mit.edu'')"

section \<open>TripForm\<close>

text \<open>
  \<^verbatim>\<open>cleaned_data\<close> of a trip form: \<open>None\<close> is a key that is absent (the field failed its
  own validation, or was not cleaned yet). The cleaned terrain level is a dynamically
  typed value, since the source asserts its type.
\<close>

record trip_cleaned_data =
  cd_program :: "string option"
  cd_membership_required :: "bool option"
  cd_maximum_participants :: "int option"
  cd_winter_terrain_level :: "pyval option"
  cd_leaders :: "participant list option"

text \<open>
  \<^verbatim>\<open>TripForm.clean_membership_required\<close>; the parameter is
  \<^verbatim>\<open>enums.Program.WINTER_SCHOOL.value\<close>.
\<close>

definition clean_membership_required :: "string \<Rightarrow> trip_cleaned_data \<Rightarrow> error + bool" where
  "clean_membership_required WINTER_SCHOOL_value cd =
     (if cd_program cd = Some WINTER_SCHOOL_value then Inr True
      else case cd_membership_required cd of
             None \<Rightarrow> Inl (KeyError ''membership_required'')
           | Some b \<Rightarrow> Inr b)"

text \<open>
  \<^verbatim>\<open>TripForm.clean_maximum_participants\<close>. A model instance defines neither
  \<^verbatim>\<open>__bool__\<close> nor \<^verbatim>\<open>__len__\<close>, so \<^verbatim>\<open>self.instance\<close> is true in the second test.
\<close>

definition shrink_message :: string where
  "shrink_message =
     ''Can't shrink trip past number of signed-up participants. '' @
     ''To remove participants, admin this trip instead.''"

definition instance_truthy :: "trip \<Rightarrow> bool" where
  "instance_truthy t = True"

definition clean_maximum_participants :: "trip \<Rightarrow> trip_cleaned_data \<Rightarrow> error + int" where
  "clean_maximum_participants t cd =
     (case cd_maximum_participants cd of
        None \<Rightarrow> Inl (KeyError ''maximum_participants'')
      | Some new_max \<Rightarrow>
          if trip_pk t = None then Inr new_max
          else
            let accepted_signups = int (length (filter on_trip (signup_set t))) in
            if instance_truthy t \<and> accepted_signups > new_max
            then Inl (ValidationError shrink_message None)
            else Inr new_max)"

text \<open>
  \<^verbatim>\<open>TripForm.clean_winter_terrain_level\<close>. \<open>Program\<close> is the lookup
  \<^verbatim>\<open>enums.Program(value)\<close>, which raises \<^verbatim>\<open>ValueError\<close> on a value that names no
  program; \<open>winter_rules_apply\<close> is the method of that name. Both are defined outside this
  module and are parameters.
\<close>

definition clean_winter_terrain_level ::
  "(string \<Rightarrow> 'p option) \<Rightarrow> ('p \<Rightarrow> bool) \<Rightarrow> trip_cleaned_data \<Rightarrow> error + string option" where
  "clean_winter_terrain_level Program winter_rules_apply cd =
     (let program = cd_program cd;
          level_branch =
            (case (case cd_winter_terrain_level cd of None \<Rightarrow> PyStr [] | Some v \<Rightarrow> v) of
               PyStr level \<Rightarrow> Inr (Some level)
             | _ \<Rightarrow> Inl AssertionError)
      in case program of
           None \<Rightarrow> level_branch
         | Some p \<Rightarrow>
             if p = [] then level_branch
             else (case Program p of
                     None \<Rightarrow> Inl ValueError
                   | Some program_enum \<Rightarrow>
                       if \<not> winter_rules_apply program_enum then Inr None
                       else level_branch))"

text \<open>
  The part of \<^verbatim>\<open>TripForm.__init__\<close> that sets
  \<^verbatim>\<open>self.fields["winter_terrain_level"].required\<close> from the submitted data. The result is
  the value assigned: \<^verbatim>\<open>program_enum and program_enum.winter_rules_apply()\<close> is
  \<^verbatim>\<open>None\<close> when \<^verbatim>\<open>program_enum\<close> is, and the method's result otherwise (an enum
  member is true).
\<close>

definition winter_terrain_level_required ::
  "(string \<Rightarrow> 'p option) \<Rightarrow> ('p \<Rightarrow> bool) \<Rightarrow> (string \<rightharpoonup> string) \<Rightarrow> error + pyval" where
  "winter_terrain_level_required Program winter_rules_apply submitted =
     (if truthy (case submitted ''program'' of None \<Rightarrow> PyNone | Some v \<Rightarrow> PyStr v) then
        (case submitted ''program'' of
           None \<Rightarrow> Inl (KeyError ''program'')
         | Some program \<Rightarrow>
             bind_err
               (if program \<noteq> [] then
                  (case Program program of None \<Rightarrow> Inl ValueError | Some e \<Rightarrow> Inr (Some e))
                else Inr None)
               (\<lambda>program_enum.
                  Inr (case program_enum of
                         None \<Rightarrow> PyNone
                       | Some e \<Rightarrow> PyBool (winter_rules_apply e))))
      else Inr (PyBool True))"

text \<open>
  The state \<^verbatim>\<open>TripForm.clean\<close> works on: the cleaned data and the errors collected so
  far, each a pair of a field name and a message.
\<close>

record trip_form_state =
  cleaned_data :: trip_cleaned_data
  form_errors :: "(string \<times> string) list"

text \<open>
  The framework's \<^verbatim>\<open>add_error(field, message)\<close> for the field \<^verbatim>\<open>leaders\<close>: the message
  is appended to the errors of the field, and the field is removed from the cleaned data.
\<close>

definition add_error_leaders :: "string \<Rightarrow> trip_form_state \<Rightarrow> trip_form_state" where
  "add_error_leaders msg st =
     st\<lparr>form_errors := form_errors st @ [(''leaders'', msg)],
        cleaned_data := (cleaned_data st)\<lparr>cd_leaders := None\<rparr>\<rparr>"

text \<open>\<^verbatim>\<open>if trip.pk:\<close> tests the truth value of the key: neither \<^verbatim>\<open>None\<close> nor zero.\<close>

definition pk_truthy :: "int option \<Rightarrow> bool" where
  "pk_truthy k = (case k of None \<Rightarrow> False | Some n \<Rightarrow> n \<noteq> 0)"

text \<open>\<^verbatim>\<open>leaders.exclude(pk__in=others)\<close>.\<close>

definition exclude_pk_in :: "participant list \<Rightarrow> participant list \<Rightarrow> participant list" where
  "exclude_pk_in leaders others = filter (\<lambda>par. par_pk par \<notin> set (map par_pk others)) leaders"

text \<open>
  \<^verbatim>\<open>TripForm.clean\<close>. The inherited \<^verbatim>\<open>clean\<close> adds no error and leaves the cleaned data
  as it is. \<open>can_lead\<close> is the participant's method and \<open>label\<close> the program's attribute;
  both are defined outside this module and are parameters.
\<close>

definition TripForm_clean ::
  "(string \<Rightarrow> 'p option) \<Rightarrow> (participant \<Rightarrow> 'p \<Rightarrow> bool) \<Rightarrow> ('p \<Rightarrow> string) \<Rightarrow>
   trip \<Rightarrow> trip_form_state \<Rightarrow> error + trip_form_state" where
  "TripForm_clean Program can_lead label t st =
     (case cd_program (cleaned_data st) of
        None \<Rightarrow> Inr st
      | Some program \<Rightarrow>
          (case cd_leaders (cleaned_data st) of
             None \<Rightarrow> Inr st
           | Some selected \<Rightarrow>
               (case Program program of
                  None \<Rightarrow> Inl ValueError
                | Some program_enum \<Rightarrow>
                    let leaders =
                          (if pk_truthy (trip_pk t) then exclude_pk_in selected (trip_leaders t)
                           else selected);
                        lacking_privs = filter (\<lambda>par. \<not> can_lead par program_enum) leaders
                    in if lacking_privs \<noteq> [] then
                         let names = str_join '', '' (map par_name lacking_privs) in
                         Inr (add_error_leaders
                                (names @ '' can't lead '' @ label program_enum @ '' trips'') st)
                       else Inr st)))"

section \<open>SignUpForm\<close>

record signup_cleaned_data =
  cd_trip :: "trip option"
  cd_notes :: "unicode option"

text \<open>\<^verbatim>\<open>SignUpForm.clean_notes\<close>.\<close>

definition clean_notes :: "signup_cleaned_data \<Rightarrow> error + unicode" where
  "clean_notes cd =
     (case cd_notes cd of
        None \<Rightarrow> Inl (KeyError ''notes'')
      | Some notes \<Rightarrow>
          let signup_notes = str_strip notes in
          (case cd_trip cd of
             None \<Rightarrow> Inr signup_notes
           | Some t \<Rightarrow>
               if trip_notes t \<noteq> [] \<and> signup_notes = []
               then Inl (ValidationError ''Please complete notes to sign up!'' None)
               else Inr signup_notes))"

section \<open>Form fields and widgets\<close>

text \<open>
  A form field with the attributes this module sets, and its widget. \<open>attrs\<close> and the
  fields of a form are dictionaries that keep insertion order: association lists,
  written with \<open>AList.update\<close>.
\<close>

datatype widget_kind = HiddenInput | TextInput | EmailInput | Select | Textarea

record widget =
  widget_kind :: widget_kind
  attrs :: "(string \<times> pyval) list"

datatype field_kind = CharField | ChoiceField | EmailField | ModelField

datatype choice =
    Grouped string "(pyval \<times> string) list"
  | Single pyval string

record form_field =
  fld_kind :: field_kind
  fld_required :: bool
  fld_label :: "string option"
  fld_help_text :: "string option"
  fld_initial :: pyval
  fld_widget :: widget
  fld_choices :: "choice list"

record form =
  form_fields :: "(string \<times> form_field) list"
  form_data :: "string \<rightharpoonup> string"

text \<open>\<^verbatim>\<open>form.fields[name].attribute = value\<close>: the field must exist.\<close>

definition modify_field :: "string \<Rightarrow> (form_field \<Rightarrow> form_field) \<Rightarrow> form \<Rightarrow> error + form" where
  "modify_field name f frm =
     (case map_of (form_fields frm) name of
        None \<Rightarrow> Inl (KeyError name)
      | Some fld \<Rightarrow> Inr (frm\<lparr>form_fields := AList.update name (f fld) (form_fields frm)\<rparr>))"

definition set_attr :: "string \<Rightarrow> pyval \<Rightarrow> form_field \<Rightarrow> form_field" where
  "set_attr k v fld =
     fld\<lparr>fld_widget := (fld_widget fld)\<lparr>attrs := AList.update k v (attrs (fld_widget fld))\<rparr>\<rparr>"

text \<open>
  \<^verbatim>\<open>_bind_input(form, field_name, initial, model_name)\<close>. The JavaScript expression is
  \<^verbatim>\<open>true\<close> or \<^verbatim>\<open>false\<close> for a boolean and the text between single quotes
  (character 0x27) for a string or an integer; any
  other true value raises \<^verbatim>\<open>TypeError\<close>.
\<close>

definition js_expr :: "pyval \<Rightarrow> error + string" where
  "js_expr initial =
     (case initial of
        PyBool b \<Rightarrow> Inr (if b then ''true'' else ''false'')
      | PyStr s \<Rightarrow> Inr ([CHR 0x27] @ s @ [CHR 0x27])
      | PyInt n \<Rightarrow> Inr ([CHR 0x27] @ str_of_int n @ [CHR 0x27])
      | _ \<Rightarrow> Inl TypeError)"

definition bind_input :: "form \<Rightarrow> string \<Rightarrow> pyval \<Rightarrow> string option \<Rightarrow> error + form" where
  "bind_input frm field_name initial model_name =
     (case map_of (form_fields frm) field_name of
        None \<Rightarrow> Inl (KeyError field_name)
      | Some fld \<Rightarrow>
          let initial1 = (if initial = PyNone then fld_initial fld else initial);
              initial2 = (case form_data frm field_name of
                            None \<Rightarrow> initial1
                          | Some submitted \<Rightarrow> PyStr submitted);
              model_name1 = (case model_name of
                               None \<Rightarrow> field_name
                             | Some m \<Rightarrow> if m \<noteq> [] then m else field_name)
          in bind_err (modify_field field_name (set_attr ''data-ng-model'' (PyStr model_name1)) frm)
               (\<lambda>frm1.
                  if truthy initial2 then
                    bind_err (js_expr initial2)
                      (\<lambda>js. modify_field field_name
                               (set_attr ''data-ng-init'' (PyStr (model_name1 @ '' = '' @ js)))
                               frm1)
                  else Inr frm1))"

section \<open>LeaderApplicationForm\<close>

text \<open>
  What the factory reads of a model class: its fields in the order of their creation,
  each with its name, whether it is a \<^verbatim>\<open>TextField\<close>, whether it is a many-to-many field,
  whether it is editable, and the form field its \<^verbatim>\<open>formfield()\<close> gives, which is \<open>None\<close>
  for a field that has no form field (the automatic primary key).
\<close>

record model_field =
  mf_name :: string
  mf_is_TextField :: bool
  mf_many_to_many :: bool
  mf_editable :: bool
  mf_formfield :: "form_field option"

record model_class =
  mc_name :: string
  mc_fields :: "model_field list"

text \<open>\<^verbatim>\<open>model._meta.fields\<close>: the fields of the model without the many-to-many fields.\<close>

definition meta_fields :: "model_class \<Rightarrow> model_field list" where
  "meta_fields model = filter (\<lambda>f. \<not> mf_many_to_many f) (mc_fields model)"

record form_meta =
  meta_exclude :: "string list"
  meta_model :: model_class
  meta_widgets :: "(string \<times> widget) list"

text \<open>
  The inner class \<^verbatim>\<open>Meta\<close> of \<^verbatim>\<open>DynamicActivityForm\<close>. \<open>model_from_activity\<close> is the
  static method \<^verbatim>\<open>models.LeaderApplication.model_from_activity\<close>, defined outside this
  module, and is a parameter.
\<close>

definition DynamicActivityForm_Meta :: "('a \<Rightarrow> model_class) \<Rightarrow> 'a \<Rightarrow> form_meta" where
  "DynamicActivityForm_Meta model_from_activity activity_enum =
     (let model = model_from_activity activity_enum in
      \<lparr>meta_exclude = [''archived'', ''year'', ''participant'', ''previous_rating''],
       meta_model = model,
       meta_widgets =
         map (\<lambda>f. (mf_name f, \<lparr>widget_kind = Textarea, attrs = [(''rows'', PyInt 4)]\<rparr>))
           (filter mf_is_TextField (meta_fields model))\<rparr>)"

text \<open>
  The framework's rule for the fields of a model form that declares \<^verbatim>\<open>exclude\<close> and no
  \<^verbatim>\<open>fields\<close>. The fields of the model, many-to-many fields included, are visited in the
  order of their creation; a field that is not editable is skipped, and so is a field
  whose name is excluded; the form field is asked of the model field, with the widget
  of \<^verbatim>\<open>Meta.widgets\<close> when one is given for the name; a model field that gives no form
  field is left out.
\<close>

definition fields_for_model :: "form_meta \<Rightarrow> (string \<times> form_field) list" where
  "fields_for_model meta =
     concat
       (map (\<lambda>f.
               if \<not> mf_editable f then []
               else if mf_name f \<in> set (meta_exclude meta) then []
               else (case mf_formfield f of
                       None \<Rightarrow> []
                     | Some formfield \<Rightarrow>
                         [(mf_name f,
                           (case map_of (meta_widgets meta) (mf_name f) of
                              None \<Rightarrow> formfield
                            | Some w \<Rightarrow> formfield\<lparr>fld_widget := w\<rparr>))]))
          (mc_fields (meta_model meta)))"

record model_form =
  daf_meta :: form_meta
  daf_fields :: "(string \<times> form_field) list"

text \<open>
  \<^verbatim>\<open>DynamicActivityForm.__init__\<close>: the two conditionally shown fields get the
  \<^verbatim>\<open>required\<close> attribute on their widget when the form has them.
\<close>

definition mark_conditional ::
  "string \<Rightarrow> (string \<times> form_field) list \<Rightarrow> (string \<times> form_field) list" where
  "mark_conditional conditional_field fs =
     (if map_of fs conditional_field \<noteq> None
      then AList.map_entry conditional_field (set_attr ''required'' (PyBool True)) fs
      else fs)"

definition DynamicActivityForm_init :: "form_meta \<Rightarrow> model_form" where
  "DynamicActivityForm_init meta =
     \<lparr>daf_meta = meta,
      daf_fields =
        fold mark_conditional [''mentee_activities'', ''mentor_activities'']
          (fields_for_model meta)\<rparr>"

text \<open>
  \<^verbatim>\<open>DynamicActivityForm.clean\<close>; \<open>accepting_applications\<close> is
  \<^verbatim>\<open>models.LeaderApplication.accepting_applications\<close>.
\<close>

definition DynamicActivityForm_clean :: "('a \<Rightarrow> bool) \<Rightarrow> 'a \<Rightarrow> 'c \<Rightarrow> error + 'c" where
  "DynamicActivityForm_clean accepting_applications activity_enum cleaned =
     (if \<not> accepting_applications activity_enum
      then Inl (ValidationError ''Not currently accepting applications!'' None)
      else Inr cleaned)"

text \<open>The factory \<^verbatim>\<open>LeaderApplicationForm(activity_enum=...)\<close>.\<close>

definition LeaderApplicationForm :: "('a \<Rightarrow> model_class) \<Rightarrow> 'a \<Rightarrow> model_form" where
  "LeaderApplicationForm model_from_activity activity_enum =
     DynamicActivityForm_init (DynamicActivityForm_Meta model_from_activity activity_enum)"

section \<open>Dues\<close>

text \<open>
  An entry of \<^verbatim>\<open>Participant.AFFILIATION_CHOICES\<close> is a pair whose second component is
  either a list of (code, label) pairs, the first component then being the label of the
  group, or a string, the pair then being (code, label).
\<close>

datatype option_val = OptList "(string \<times> string) list" | OptStr string

text \<open>
  \<^verbatim>\<open>include_amount_in_label\<close>, the local function of \<^verbatim>\<open>amount_choices\<close>;
  \<open>affiliation_to_annual_dues\<close> is the static method of \<^verbatim>\<open>Participant\<close>, a parameter.
\<close>

definition include_amount_in_label ::
  "(string \<Rightarrow> int) \<Rightarrow> bool \<Rightarrow> string \<Rightarrow> string \<Rightarrow> pyval \<times> string" where
  "include_amount_in_label affiliation_to_annual_dues value_is_amount affiliation_code label =
     (let amount = affiliation_to_annual_dues affiliation_code;
          annotated_label = label @ '' ($'' @ str_of_int amount @ '')''
      in if value_is_amount then (PyInt amount, annotated_label)
         else (PyStr affiliation_code, annotated_label))"

text \<open>\<^verbatim>\<open>amount_choices(value_is_amount)\<close>: the list of the values the generator yields.\<close>

fun amount_choices ::
  "(string \<Rightarrow> int) \<Rightarrow> (string \<times> option_val) list \<Rightarrow> bool \<Rightarrow> choice list" where
  "amount_choices affiliation_to_annual_dues [] value_is_amount = []"
| "amount_choices affiliation_to_annual_dues ((label, opt) # rest) value_is_amount =
     (case opt of
        OptList choices \<Rightarrow>
          Grouped label
            (map (\<lambda>(code, l). include_amount_in_label affiliation_to_annual_dues value_is_amount code l)
               choices)
      | OptStr l \<Rightarrow>
          (case include_amount_in_label affiliation_to_annual_dues value_is_amount label l of
             (v, annotated) \<Rightarrow> Single v annotated))
     # amount_choices affiliation_to_annual_dues rest value_is_amount"

text \<open>
  The declared fields of \<^verbatim>\<open>DuesForm\<close>, in the order of the class body. A field is required
  unless declared otherwise. \<^verbatim>\<open>MERCHANT_ID\<close> and \<^verbatim>\<open>PAYMENT_TYPE\<close> are constants of
  \<^verbatim>\<open>ws.membership\<close> and are parameters.
\<close>

definition new_field :: "field_kind \<Rightarrow> widget_kind \<Rightarrow> form_field" where
  "new_field k w =
     \<lparr>fld_kind = k, fld_required = True, fld_label = None, fld_help_text = None,
      fld_initial = PyNone, fld_widget = \<lparr>widget_kind = w, attrs = []\<rparr>, fld_choices = []\<rparr>"

definition DuesForm_base_fields ::
  "pyval \<Rightarrow> pyval \<Rightarrow> (string \<Rightarrow> int) \<Rightarrow> (string \<times> option_val) list \<Rightarrow>
   (string \<times> form_field) list" where
  "DuesForm_base_fields MERCHANT_ID PAYMENT_TYPE affiliation_to_annual_dues AFFILIATION_CHOICES =
     [(''merchant_id'', (new_field CharField HiddenInput)\<lparr>fld_initial := MERCHANT_ID\<rparr>),
      (''description'',
         (new_field CharField HiddenInput)\<lparr>fld_initial := PyStr ''membership fees.''\<rparr>),
      (''merchantDefinedData1'',
         (new_field CharField HiddenInput)\<lparr>fld_initial := PAYMENT_TYPE\<rparr>),
      (''merchantDefinedData2'',
         (new_field ChoiceField Select)
           \<lparr>fld_label := Some ''Affiliation'',
            fld_choices := amount_choices affiliation_to_annual_dues AFFILIATION_CHOICES False\<rparr>),
      (''merchantDefinedData3'', (new_field EmailField EmailInput)\<lparr>fld_label := Some ''Email''\<rparr>),
      (''merchantDefinedData4'',
         (new_field CharField TextInput)
           \<lparr>fld_label := Some ''Full name'',
            fld_widget :=
              \<lparr>widget_kind = TextInput,
               attrs = [(''placeholder'', PyStr ''Tim Beaver''), (''title'', PyStr ''Full name''),
                        (''pattern'', PyStr ''^.* .*$'')]\<rparr>\<rparr>),
      (''amount'',
         (new_field ChoiceField Select)
           \<lparr>fld_label := Some ''Please confirm your affiliation'',
            fld_help_text := Some ''(We're showing this because you have scripts disabled)'',
            fld_choices := amount_choices affiliation_to_annual_dues AFFILIATION_CHOICES True\<rparr>)]"

text \<open>
  \<^verbatim>\<open>DuesForm.__init__\<close> with the keyword \<^verbatim>\<open>participant\<close> (\<open>None\<close> for Python's
  \<^verbatim>\<open>None\<close>; a participant is a model instance and so is true) and the submitted data.
\<close>

definition set_initial :: "pyval \<Rightarrow> form_field \<Rightarrow> form_field" where
  "set_initial v fld = fld\<lparr>fld_initial := v\<rparr>"

definition DuesForm_init ::
  "pyval \<Rightarrow> pyval \<Rightarrow> (string \<Rightarrow> int) \<Rightarrow> (string \<times> option_val) list \<Rightarrow>
   participant option \<Rightarrow> (string \<rightharpoonup> string) \<Rightarrow> error + form" where
  "DuesForm_init MERCHANT_ID PAYMENT_TYPE affiliation_to_annual_dues AFFILIATION_CHOICES
     par submitted =
     (let frm0 =
            \<lparr>form_fields =
               DuesForm_base_fields MERCHANT_ID PAYMENT_TYPE affiliation_to_annual_dues
                 AFFILIATION_CHOICES,
             form_data = submitted\<rparr>
      in bind_err
           (case par of
              None \<Rightarrow>
                bind_err
                  (modify_field ''merchantDefinedData3''
                     (set_attr ''placeholder'' (PyStr ''tim@mit.edu'')) frm0)
                  (modify_field ''amount'' (set_initial (PyStr [])))
            | Some p \<Rightarrow>
                bind_err (modify_field ''merchantDefinedData3'' (set_initial (PyStr (par_email p))) frm0)
                  (\<lambda>frm1.
                     bind_err (modify_field ''merchantDefinedData4''
                                 (set_initial (PyStr (par_name p))) frm1)
                       (\<lambda>frm2.
                          bind_err (modify_field ''merchantDefinedData2''
                                      (set_initial (PyStr (par_affiliation p))) frm2)
                            (modify_field ''amount''
                               (set_initial (PyInt (par_annual_dues p)))))))
           (\<lambda>frm4.
              bind_err (bind_input frm4 ''merchantDefinedData2'' PyNone (Some ''affiliation''))
                (\<lambda>frm5.
                   bind_err (bind_input frm5 ''merchantDefinedData3'' PyNone (Some ''email''))
                     (\<lambda>frm6. bind_input frm6 ''amount'' PyNone None))))"

section \<open>Properties of the string operations\<close>

lemma endswith_iff_suffix: "endswith s suf \<longleftrightarrow> suffix suf s"
proof
  assume "endswith s suf"
  then have "s = take (length s - length suf) s @ suf"
    by (metis append_take_drop_id endswith_def)
  then show "suffix suf s" by (rule suffixI)
next
  assume "suffix suf s"
  then obtain pre where "s = pre @ suf" by (rule suffixE)
  then show "endswith s suf" by (simp add: endswith_def)
qed

lemma mit_domain_address_endswith:
  assumes "mit_domain_address e"
  shows "endswith (str_lower e) ''mit.edu''"
proof -
  have a: "suffix ''mit.edu'' ''@mit.edu''" by (rule suffixI [of _ "''@''"]) simp
  have b: "suffix ''mit.edu'' ''.mit.edu''" by (rule suffixI [of _ "''.''"]) simp
  from assms have "suffix ''@mit.edu'' (str_lower e) \<or> suffix ''.mit.edu'' (str_lower e)"
    by (simp add: mit_domain_address_def endswith_iff_suffix)
  then have "suffix ''mit.edu'' (str_lower e)"
    using a b by (auto intro: suffix_order.trans)
  then show ?thesis by (simp add: endswith_iff_suffix)
qed

lemma str_strip_decompose:
  "\<exists>pre post. s = pre @ str_strip s @ post \<and> list_all isspace pre \<and> list_all isspace post"
proof -
  let ?a = "dropWhile isspace s"
  let ?post = "rev (takeWhile isspace (rev ?a))"
  have "?a = rev (dropWhile isspace (rev ?a)) @ rev (takeWhile isspace (rev ?a))"
    by (metis rev_append rev_rev_ident takeWhile_dropWhile_id)
  then have a: "?a = str_strip s @ ?post" by (simp only: str_strip_def)
  have "s = takeWhile isspace s @ ?a" by simp
  with a have "s = takeWhile isspace s @ str_strip s @ ?post" by simp
  moreover have "list_all isspace (takeWhile isspace s)"
    by (auto simp: list_all_iff dest: set_takeWhileD)
  moreover have "list_all isspace ?post"
    by (auto simp: list_all_iff dest: set_takeWhileD)
  ultimately show ?thesis by blast
qed

lemma str_strip_ends:
  assumes ne: "str_strip s \<noteq> []"
  shows "\<not> isspace (hd (str_strip s)) \<and> \<not> isspace (last (str_strip s))"
proof -
  define a where "a = dropWhile isspace s"
  define b where "b = dropWhile isspace (rev a)"
  have strip: "str_strip s = rev b" by (simp add: str_strip_def a_def b_def)
  from ne strip have b: "b \<noteq> []" by simp
  then have hb: "\<not> isspace (hd b)" unfolding b_def by (rule hd_dropWhile)
  have a: "a \<noteq> []"
  proof
    assume "a = []"
    then have "b = []" by (simp add: b_def)
    with b show False by simp
  qed
  then have ha: "\<not> isspace (hd a)" unfolding a_def by (rule hd_dropWhile)
  have "rev a = takeWhile isspace (rev a) @ b" by (simp add: b_def)
  then have "last (rev a) = last b" using b by (metis last_appendR)
  then have lb: "last b = hd a" using a by (simp add: last_rev)
  have "hd (str_strip s) = last b" using b by (simp add: strip hd_rev)
  moreover have "last (str_strip s) = hd b" using b by (simp add: strip last_rev)
  ultimately show ?thesis using ha hb lb by simp
qed

lemma str_strip_empty_iff: "str_strip s = [] \<longleftrightarrow> list_all isspace s"
proof
  assume "list_all isspace s"
  then have d: "dropWhile isspace s = []" by (metis dropWhile_eq_Nil_conv list_all_iff)
  show "str_strip s = []" unfolding str_strip_def d by simp
next
  assume e: "str_strip s = []"
  from str_strip_decompose [of s] obtain pre post where
    "s = pre @ str_strip s @ post" "list_all isspace pre" "list_all isspace post"
    by blast
  with e show "list_all isspace s" by (metis append_Nil list_all_append)
qed

lemma digit_char_value:
  "d < 10 \<Longrightarrow> is_digit (digit_char d) \<and> (of_char (digit_char d) :: nat) - 48 = d"
  by (simp add: digit_char_def is_digit_def)

lemma digit_char_zero: "d < 10 \<Longrightarrow> digit_char d = CHR ''0'' \<longleftrightarrow> d = 0"
  by (simp add: digit_char_def)

lemma decimal_value_snoc:
  "decimal_value (s @ [c]) = 10 * decimal_value s + ((of_char c :: nat) - 48)"
  by (simp add: decimal_value_def)

lemma str_of_nat_decimal:
  "str_of_nat n \<noteq> [] \<and> list_all is_digit (str_of_nat n) \<and> decimal_value (str_of_nat n) = n \<and>
   (0 < n \<longrightarrow> hd (str_of_nat n) \<noteq> CHR ''0'') \<and> (1 < length (str_of_nat n) \<longrightarrow> 0 < n)"
proof (induction n rule: str_of_nat.induct)
  case (1 n)
  show ?case
  proof (cases "n < 10")
    case True
    then have s: "str_of_nat n = [digit_char n]" by (simp add: str_of_nat.simps [of n])
    from True show ?thesis
      unfolding s using digit_char_value [of n] digit_char_zero [of n]
      by (simp add: decimal_value_def)
  next
    case False
    then have s: "str_of_nat n = str_of_nat (n div 10) @ [digit_char (n mod 10)]"
      by (simp add: str_of_nat.simps [of n])
    from False have pos: "0 < n div 10" by (simp add: div_greater_zero_iff)
    have m: "n mod 10 < 10" by simp
    note ih = "1.IH" [OF False]
    from ih pos have hd: "hd (str_of_nat (n div 10)) \<noteq> CHR ''0''" by simp
    from ih have ne: "str_of_nat (n div 10) \<noteq> []" by simp
    have "decimal_value (str_of_nat n) = 10 * (n div 10) + n mod 10"
      unfolding s decimal_value_snoc using ih digit_char_value [OF m] by simp
    then have v: "decimal_value (str_of_nat n) = n" by simp
    have d: "list_all is_digit (str_of_nat n)"
      unfolding s using ih digit_char_value [OF m] by simp
    have h: "hd (str_of_nat n) \<noteq> CHR ''0''" unfolding s using hd ne by simp
    have p: "0 < n" using False by simp
    from v d h p show ?thesis unfolding s by simp
  qed
qed

lemma str_of_int_decimal:
  "(0 \<le> i \<longrightarrow>
      str_of_int i \<noteq> [] \<and> list_all is_digit (str_of_int i) \<and>
      int (decimal_value (str_of_int i)) = i \<and>
      (1 < length (str_of_int i) \<longrightarrow> hd (str_of_int i) \<noteq> CHR ''0'')) \<and>
   (i < 0 \<longrightarrow> str_of_int i = CHR ''-'' # str_of_int (- i))"
  using str_of_nat_decimal [of "nat i"] by (auto simp: str_of_int_def)

section \<open>ParticipantForm: the student affiliations need an MIT address\<close>

lemma list_ex_verified_emails:
  "list_ex P (verified_emails u) \<longleftrightarrow>
     (\<exists>ea \<in> set (emailaddress_set u). verified ea \<and> P (email ea))"
  by (auto simp: verified_emails_def list_ex_iff)

text \<open>
  Claim C1, as the code has it by design. Take a user none of whose verified addresses
  ends, in lower case, with \<^verbatim>\<open>mit.edu\<close> without being an address at \<^verbatim>\<open>mit.edu\<close> or at one
  of its sub-domains. Then \<^verbatim>\<open>clean_affiliation\<close> raises the validation error with code
  \<^verbatim>\<open>lacks_mit_email\<close> exactly when the cleaned affiliation is one of the two student
  codes and no verified address of the user is at \<^verbatim>\<open>mit.edu\<close> or at one of its
  sub-domains, case disregarded. For every user, when the method does not raise this
  error it returns the affiliation unchanged, and for an affiliation outside the two
  codes it does so whatever the list of addresses is.
\<close>

theorem clean_affiliation_lacks_mit_email:
  "((\<forall>ea \<in> set (emailaddress_set u).
       verified ea \<and> endswith (str_lower (email ea)) ''mit.edu'' \<longrightarrow>
       mit_domain_address (email ea)) \<longrightarrow>
    (clean_affiliation MU MG (verified_emails u) a =
       Inl (ValidationError ''MIT email address required for student affiliation!''
              (Some ''lacks_mit_email''))
     \<longleftrightarrow> (a = MU \<or> a = MG) \<and>
         \<not> (\<exists>ea \<in> set (emailaddress_set u). verified ea \<and> mit_domain_address (email ea))))
   \<and> (clean_affiliation MU MG (verified_emails u) a \<noteq>
         Inl (ValidationError ''MIT email address required for student affiliation!''
                (Some ''lacks_mit_email''))
       \<longrightarrow> clean_affiliation MU MG (verified_emails u) a = Inr a)
   \<and> (a \<noteq> MU \<and> a \<noteq> MG \<longrightarrow> (\<forall>emails. clean_affiliation MU MG emails a = Inr a))"
proof (intro conjI impI)
  assume scope: "\<forall>ea \<in> set (emailaddress_set u).
       verified ea \<and> endswith (str_lower (email ea)) ''mit.edu'' \<longrightarrow>
       mit_domain_address (email ea)"
  have "(\<exists>ea \<in> set (emailaddress_set u). verified ea \<and> endswith (str_lower (email ea)) ''mit.edu'')
        \<longleftrightarrow> (\<exists>ea \<in> set (emailaddress_set u). verified ea \<and> mit_domain_address (email ea))"
    using scope mit_domain_address_endswith by blast
  then show "clean_affiliation MU MG (verified_emails u) a =
       Inl (ValidationError ''MIT email address required for student affiliation!''
              (Some ''lacks_mit_email''))
     \<longleftrightarrow> (a = MU \<or> a = MG) \<and>
         \<not> (\<exists>ea \<in> set (emailaddress_set u). verified ea \<and> mit_domain_address (email ea))"
    by (simp add: clean_affiliation_def list_ex_verified_emails)
next
  assume "clean_affiliation MU MG (verified_emails u) a \<noteq>
         Inl (ValidationError ''MIT email address required for student affiliation!''
                (Some ''lacks_mit_email''))"
  then show "clean_affiliation MU MG (verified_emails u) a = Inr a"
    by (simp add: clean_affiliation_def split: if_splits)
next
  assume "a \<noteq> MU \<and> a \<noteq> MG"
  then show "\<forall>emails. clean_affiliation MU MG emails a = Inr a"
    by (simp add: clean_affiliation_def)
qed

theorem clean_affiliation_lacks_mit_email_witness:
  "clean_affiliation ''MU'' ''MG''
     (verified_emails
        \<lparr>emailaddress_set =
           [\<lparr>email = ''tim@gmail.com'', verified = True\<rparr>,
            \<lparr>email = ''tim@mit.edu'', verified = False\<rparr>]\<rparr>) ''MU'' =
     Inl (ValidationError ''MIT email address required for student affiliation!''
            (Some ''lacks_mit_email'')) \<and>
   clean_affiliation ''MU'' ''MG''
     (verified_emails
        \<lparr>emailaddress_set =
           [\<lparr>email = ''tim@gmail.com'', verified = True\<rparr>,
            \<lparr>email = ''Tim@Alum.MIT.EDU'', verified = True\<rparr>]\<rparr>)
     ''MG'' = Inr ''MG'' \<and>
   clean_affiliation ''MU'' ''MG'' [] ''NA'' = Inr ''NA''"
proof -
  let ?u = "\<lparr>emailaddress_set =
           [\<lparr>email = ''tim@gmail.com'', verified = True\<rparr>,
            \<lparr>email = ''tim@mit.edu'', verified = False\<rparr>]\<rparr>"
  let ?v = "\<lparr>emailaddress_set =
           [\<lparr>email = ''tim@gmail.com'', verified = True\<rparr>,
            \<lparr>email = ''Tim@Alum.MIT.EDU'', verified = True\<rparr>]\<rparr>"
  let ?err = "Inl (ValidationError ''MIT email address required for student affiliation!''
            (Some ''lacks_mit_email'')) :: error + string"
  have scope_u: "\<forall>ea \<in> set (emailaddress_set ?u).
       verified ea \<and> endswith (str_lower (email ea)) ''mit.edu'' \<longrightarrow>
       mit_domain_address (email ea)"
    by code_simp
  have scope_v: "\<forall>ea \<in> set (emailaddress_set ?v).
       verified ea \<and> endswith (str_lower (email ea)) ''mit.edu'' \<longrightarrow>
       mit_domain_address (email ea)"
    by code_simp
  have no_mit: "(''MU'' = ''MU'' \<or> ''MU'' = ''MG'') \<and>
       \<not> (\<exists>ea \<in> set (emailaddress_set ?u). verified ea \<and> mit_domain_address (email ea))"
    by code_simp
  have has_mit: "\<not> ((''MG'' = ''MU'' \<or> ''MG'' = ''MG'') \<and>
       \<not> (\<exists>ea \<in> set (emailaddress_set ?v). verified ea \<and> mit_domain_address (email ea)))"
    by code_simp
  have other: "''NA'' \<noteq> ''MU'' \<and> ''NA'' \<noteq> ''MG''" by simp
  note inst_u = clean_affiliation_lacks_mit_email
            [where MU = "''MU''" and MG = "''MG''" and u = ?u and a = "''MU''"]
  note inst_v = clean_affiliation_lacks_mit_email
            [where MU = "''MU''" and MG = "''MG''" and u = ?v and a = "''MG''"]
  have a: "clean_affiliation ''MU'' ''MG'' (verified_emails ?u) ''MU'' = ?err"
    by (rule inst_u [THEN conjunct1, THEN mp, OF scope_u, THEN iffD2, OF no_mit])
  have "clean_affiliation ''MU'' ''MG'' (verified_emails ?v) ''MG'' \<noteq> ?err"
    using has_mit inst_v [THEN conjunct1, THEN mp, OF scope_v, THEN iffD1]
    by (rule contrapos_nn)
  then have b: "clean_affiliation ''MU'' ''MG'' (verified_emails ?v) ''MG'' = Inr ''MG''"
    by (rule inst_v [THEN conjunct2, THEN conjunct1, rule_format])
  have c: "clean_affiliation ''MU'' ''MG'' [] ''NA'' = Inr ''NA''"
    by (rule clean_affiliation_lacks_mit_email
              [where MU = "''MU''" and MG = "''MG''" and u = ?u and a = "''NA''",
               THEN conjunct2, THEN conjunct2, rule_format, OF other])
  from a b c show ?thesis by (intro conjI)
qed

text \<open>
  The claim as the specification words it fails: a student whose only verified address
  is at a sub-domain of \<^verbatim>\<open>mit.edu\<close> has no @mit.edu address and yet passes.
\<close>

theorem clean_affiliation_claim_counterexample:
  "\<not> spec_at_mit_edu_address ''tim@alum.mit.edu'' \<and>
   clean_affiliation ''MU'' ''MG''
     (verified_emails \<lparr>emailaddress_set = [\<lparr>email = ''tim@alum.mit.edu'', verified = True\<rparr>]\<rparr>)
     ''MU'' = Inr ''MU''"
  by code_simp

section \<open>TripForm: the maximum number of participants\<close>

text \<open>
  Claim C2. For a trip that has a primary key, \<^verbatim>\<open>clean_maximum_participants\<close> raises a
  validation error exactly when the number of signups with \<^verbatim>\<open>on_trip=True\<close> exceeds the
  submitted maximum, and the message starts with the sentence about shrinking; a
  maximum equal to or above that number is returned. For a trip without a primary key
  every submitted maximum is returned.
\<close>

theorem clean_maximum_participants_shrink:
  assumes "cd_maximum_participants cd = Some new_max"
  shows "(trip_pk t \<noteq> None \<longrightarrow>
            ((\<exists>m c. clean_maximum_participants t cd = Inl (ValidationError m c))
               \<longleftrightarrow> int (length (filter on_trip (signup_set t))) > new_max) \<and>
            (int (length (filter on_trip (signup_set t))) > new_max \<longrightarrow>
               clean_maximum_participants t cd = Inl (ValidationError shrink_message None)) \<and>
            (int (length (filter on_trip (signup_set t))) \<le> new_max \<longrightarrow>
               clean_maximum_participants t cd = Inr new_max)) \<and>
         (trip_pk t = None \<longrightarrow> clean_maximum_participants t cd = Inr new_max) \<and>
         prefix ''Can't shrink trip past number of signed-up participants.'' shrink_message"
  using assms
  by (auto simp: clean_maximum_participants_def instance_truthy_def shrink_message_def Let_def)

theorem clean_maximum_participants_shrink_witness:
  "clean_maximum_participants
     \<lparr>trip_pk = Some 12, trip_notes = [],
      signup_set = [\<lparr>on_trip = True\<rparr>, \<lparr>on_trip = False\<rparr>, \<lparr>on_trip = True\<rparr>],
      trip_leaders = []\<rparr>
     \<lparr>cd_program = None, cd_membership_required = None, cd_maximum_participants = Some 2,
      cd_winter_terrain_level = None, cd_leaders = None\<rparr> = Inr 2 \<and>
   clean_maximum_participants
     \<lparr>trip_pk = Some 12, trip_notes = [],
      signup_set = [\<lparr>on_trip = True\<rparr>, \<lparr>on_trip = False\<rparr>, \<lparr>on_trip = True\<rparr>],
      trip_leaders = []\<rparr>
     \<lparr>cd_program = None, cd_membership_required = None, cd_maximum_participants = Some 1,
      cd_winter_terrain_level = None, cd_leaders = None\<rparr> =
     Inl (ValidationError shrink_message None) \<and>
   clean_maximum_participants
     \<lparr>trip_pk = None, trip_notes = [],
      signup_set = [\<lparr>on_trip = True\<rparr>, \<lparr>on_trip = False\<rparr>, \<lparr>on_trip = True\<rparr>],
      trip_leaders = []\<rparr>
     \<lparr>cd_program = None, cd_membership_required = None, cd_maximum_participants = Some 1,
      cd_winter_terrain_level = None, cd_leaders = None\<rparr> = Inr 1"
proof -
  let ?t = "\<lparr>trip_pk = Some 12, trip_notes = [],
      signup_set = [\<lparr>on_trip = True\<rparr>, \<lparr>on_trip = False\<rparr>, \<lparr>on_trip = True\<rparr>],
      trip_leaders = []\<rparr>"
  let ?n = "\<lparr>trip_pk = None, trip_notes = [],
      signup_set = [\<lparr>on_trip = True\<rparr>, \<lparr>on_trip = False\<rparr>, \<lparr>on_trip = True\<rparr>],
      trip_leaders = []\<rparr>"
  let ?cd2 = "\<lparr>cd_program = None, cd_membership_required = None,
      cd_maximum_participants = Some 2, cd_winter_terrain_level = None, cd_leaders = None\<rparr>"
  let ?cd1 = "\<lparr>cd_program = None, cd_membership_required = None,
      cd_maximum_participants = Some 1, cd_winter_terrain_level = None, cd_leaders = None\<rparr>"
  have h2: "cd_maximum_participants ?cd2 = Some 2" by simp
  have h1: "cd_maximum_participants ?cd1 = Some 1" by simp
  show ?thesis
    using clean_maximum_participants_shrink [OF h2, of ?t]
      clean_maximum_participants_shrink [OF h1, of ?t]
      clean_maximum_participants_shrink [OF h1, of ?n]
    by simp
qed

section \<open>SignUpForm: notes are needed when the trip asks for them\<close>

text \<open>
  Claim C3. When the cleaned data hold a trip whose notes are not empty,
  \<^verbatim>\<open>clean_notes\<close> raises the validation error "Please complete notes to sign up!" exactly
  when the submitted notes are empty after stripping; when the trip is absent, or its
  notes are empty, or the stripped notes are not empty, it returns the stripped notes.
  The stripped notes are the submitted notes without a leading and a trailing run of
  whitespace, and neither begin nor end with whitespace; they are empty exactly when
  the submitted notes are whitespace throughout. Whitespace is what Python's
  \<^verbatim>\<open>str.isspace()\<close> accepts, the no-break space and the other Unicode spaces included.
\<close>

theorem clean_notes_required_when_trip_has_notes:
  assumes "cd_notes cd = Some notes"
  shows "(\<forall>t. cd_trip cd = Some t \<and> trip_notes t \<noteq> [] \<longrightarrow>
            (clean_notes cd = Inl (ValidationError ''Please complete notes to sign up!'' None)
               \<longleftrightarrow> str_strip notes = [])) \<and>
         (cd_trip cd = None \<or> (\<exists>t. cd_trip cd = Some t \<and> trip_notes t = []) \<or>
          str_strip notes \<noteq> []
            \<longrightarrow> clean_notes cd = Inr (str_strip notes)) \<and>
         (\<exists>pre post. notes = pre @ str_strip notes @ post \<and>
                     list_all isspace pre \<and> list_all isspace post) \<and>
         (str_strip notes \<noteq> [] \<longrightarrow>
            \<not> isspace (hd (str_strip notes)) \<and> \<not> isspace (last (str_strip notes))) \<and>
         (str_strip notes = [] \<longleftrightarrow> list_all isspace notes) \<and>
         (\<forall>c. isspace c \<longleftrightarrow>
                c \<in> {9, 10, 11, 12, 13, 28, 29, 30, 31, 32, 133, 160, 5760} \<union> {8192..8202} \<union>
                    {8232, 8233, 8239, 8287, 12288})"
proof -
  have code: "(\<forall>t. cd_trip cd = Some t \<and> trip_notes t \<noteq> [] \<longrightarrow>
            (clean_notes cd = Inl (ValidationError ''Please complete notes to sign up!'' None)
               \<longleftrightarrow> str_strip notes = [])) \<and>
         (cd_trip cd = None \<or> (\<exists>t. cd_trip cd = Some t \<and> trip_notes t = []) \<or>
          str_strip notes \<noteq> []
            \<longrightarrow> clean_notes cd = Inr (str_strip notes))"
    using assms by (auto simp: clean_notes_def Let_def split: option.splits)
  have ws: "\<forall>c. isspace c \<longleftrightarrow>
                c \<in> {9, 10, 11, 12, 13, 28, 29, 30, 31, 32, 133, 160, 5760} \<union> {8192..8202} \<union>
                    {8232, 8233, 8239, 8287, 12288}"
    unfolding isspace_def by (intro allI) (simp, arith)
  from code str_strip_decompose [of "notes"] str_strip_ends [of "notes"]
    str_strip_empty_iff [of "notes"] ws
  show ?thesis by (intro conjI impI) (simp_all only:, blast+)
qed

theorem clean_notes_required_when_trip_has_notes_witness:
  "clean_notes
     \<lparr>cd_trip = Some \<lparr>trip_pk = Some 3, trip_notes = [68, 105, 101, 116, 63], signup_set = [],
                      trip_leaders = []\<rparr>,
      cd_notes = Some [160, 8195, 10, 32]\<rparr> =
     Inl (ValidationError ''Please complete notes to sign up!'' None) \<and>
   clean_notes
     \<lparr>cd_trip = Some \<lparr>trip_pk = Some 3, trip_notes = [68, 105, 101, 116, 63], signup_set = [],
                      trip_leaders = []\<rparr>,
      cd_notes = Some [160, 72, 105, 32, 12288]\<rparr> = Inr [72, 105] \<and>
   clean_notes
     \<lparr>cd_trip = Some \<lparr>trip_pk = Some 3, trip_notes = [], signup_set = [], trip_leaders = []\<rparr>,
      cd_notes = Some [32, 9]\<rparr> = Inr []"
proof -
  let ?t = "\<lparr>trip_pk = Some 3, trip_notes = [68, 105, 101, 116, 63], signup_set = [],
             trip_leaders = []\<rparr>"
  let ?e = "\<lparr>trip_pk = Some 3, trip_notes = [], signup_set = [], trip_leaders = []\<rparr>"
  let ?blank = "\<lparr>cd_trip = Some ?t, cd_notes = Some [160, 8195, 10, 32]\<rparr>"
  let ?hi = "\<lparr>cd_trip = Some ?t, cd_notes = Some [160, 72, 105, 32, 12288]\<rparr>"
  let ?free = "\<lparr>cd_trip = Some ?e, cd_notes = Some [32, 9]\<rparr>"
  have s1: "str_strip [160, 8195, 10, 32] = []" by (simp add: str_strip_def isspace_def)
  have s2: "str_strip [160, 72, 105, 32, 12288] = [72, 105]"
    by (simp add: str_strip_def isspace_def)
  have s3: "str_strip [32, 9] = []" by (simp add: str_strip_def isspace_def)
  have h1: "cd_notes ?blank = Some [160, 8195, 10, 32]" by simp
  have h2: "cd_notes ?hi = Some [160, 72, 105, 32, 12288]" by simp
  have h3: "cd_notes ?free = Some [32, 9]" by simp
  have a: "clean_notes ?blank = Inl (ValidationError ''Please complete notes to sign up!'' None)"
    using clean_notes_required_when_trip_has_notes [OF h1, THEN conjunct1] s1 by simp
  have b: "clean_notes ?hi = Inr [72, 105]"
    using clean_notes_required_when_trip_has_notes [OF h2, THEN conjunct2, THEN conjunct1] s2
    by simp
  have c: "clean_notes ?free = Inr []"
    using clean_notes_required_when_trip_has_notes [OF h3, THEN conjunct2, THEN conjunct1] s3
    by simp
  from a b c show ?thesis by (intro conjI)
qed

section \<open>TripForm: the winter terrain level\<close>

text \<open>
  Claim C4. \<^verbatim>\<open>clean_winter_terrain_level\<close> returns \<^verbatim>\<open>None\<close> when a program is selected
  whose winter rules do not apply. Otherwise, that is with a program under winter rules
  or with no program selected, it returns the cleaned level string unchanged, and the
  empty string when the level is absent.
\<close>

theorem clean_winter_terrain_level_strips:
  "(\<forall>p e. cd_program cd = Some p \<and> p \<noteq> [] \<and> Program p = Some e \<and> \<not> winter_rules_apply e \<longrightarrow>
      clean_winter_terrain_level Program winter_rules_apply cd = Inr None) \<and>
   (cd_program cd = None \<or> cd_program cd = Some [] \<or>
      (\<exists>p e. cd_program cd = Some p \<and> Program p = Some e \<and> winter_rules_apply e) \<longrightarrow>
      (\<forall>level. cd_winter_terrain_level cd = Some (PyStr level) \<longrightarrow>
         clean_winter_terrain_level Program winter_rules_apply cd = Inr (Some level)) \<and>
      (cd_winter_terrain_level cd = None \<longrightarrow>
         clean_winter_terrain_level Program winter_rules_apply cd = Inr (Some [])))"
  by (auto simp: clean_winter_terrain_level_def Let_def split: option.splits)

theorem clean_winter_terrain_level_strips_witness:
  "clean_winter_terrain_level (map_of [(''winter_school'', True), (''hiking'', False)]) id
     \<lparr>cd_program = Some ''hiking'', cd_membership_required = None,
      cd_maximum_participants = None, cd_winter_terrain_level = Some (PyStr ''B''),
      cd_leaders = None\<rparr> = Inr None \<and>
   clean_winter_terrain_level (map_of [(''winter_school'', True), (''hiking'', False)]) id
     \<lparr>cd_program = Some ''winter_school'', cd_membership_required = None,
      cd_maximum_participants = None, cd_winter_terrain_level = Some (PyStr ''B''),
      cd_leaders = None\<rparr> = Inr (Some ''B'')"
  using
    clean_winter_terrain_level_strips
      [of "\<lparr>cd_program = Some ''hiking'', cd_membership_required = None,
             cd_maximum_participants = None, cd_winter_terrain_level = Some (PyStr ''B''),
             cd_leaders = None\<rparr>"
          "map_of [(''winter_school'', True), (''hiking'', False)]" id]
    clean_winter_terrain_level_strips
      [of "\<lparr>cd_program = Some ''winter_school'', cd_membership_required = None,
             cd_maximum_participants = None, cd_winter_terrain_level = Some (PyStr ''B''),
             cd_leaders = None\<rparr>"
          "map_of [(''winter_school'', True), (''hiking'', False)]" id]
  by auto

text \<open>
  Claim C5, as the code has it. When the submitted program, if there is one, names a
  program, constructing the form sets the \<^verbatim>\<open>required\<close> flag of the terrain level to a
  boolean, which is true exactly when no program or an empty one was submitted, or the
  submitted program is one to which winter rules apply.
\<close>

theorem winter_terrain_level_required_iff:
  assumes "\<forall>p. submitted ''program'' = Some p \<longrightarrow> p \<noteq> [] \<longrightarrow> Program p \<noteq> None"
  shows "\<exists>b. winter_terrain_level_required Program winter_rules_apply submitted =
               Inr (PyBool b) \<and>
           (b \<longleftrightarrow> submitted ''program'' = None \<or> submitted ''program'' = Some [] \<or>
                 (\<exists>p e. submitted ''program'' = Some p \<and> Program p = Some e \<and>
                        winter_rules_apply e))"
  using assms
  by (auto simp: winter_terrain_level_required_def bind_err_def split: option.splits)

theorem winter_terrain_level_required_iff_witness:
  "winter_terrain_level_required (map_of [(''winter_school'', True), (''hiking'', False)]) id
     (map_of [(''program'', ''hiking'')]) = Inr (PyBool False) \<and>
   winter_terrain_level_required (map_of [(''winter_school'', True), (''hiking'', False)]) id
     (map_of [(''program'', ''winter_school'')]) = Inr (PyBool True) \<and>
   winter_terrain_level_required (map_of [(''winter_school'', True), (''hiking'', False)]) id
     (map_of [(''name'', ''Frankenstein Cliffs'')]) = Inr (PyBool True)"
proof -
  let ?P = "map_of [(''winter_school'', True), (''hiking'', False)]"
  have a: "\<forall>p. map_of [(''program'', ''hiking'')] ''program'' = Some p \<longrightarrow> p \<noteq> [] \<longrightarrow>
               ?P p \<noteq> None"
    by auto
  have b: "\<forall>p. map_of [(''program'', ''winter_school'')] ''program'' = Some p \<longrightarrow> p \<noteq> [] \<longrightarrow>
               ?P p \<noteq> None"
    by simp
  have c: "\<forall>p. map_of [(''name'', ''Frankenstein Cliffs'')] ''program'' = Some p \<longrightarrow> p \<noteq> [] \<longrightarrow>
               ?P p \<noteq> None"
    by simp
  show ?thesis
    using
      winter_terrain_level_required_iff
        [where Program = ?P and winter_rules_apply = id
           and submitted = "map_of [(''program'', ''hiking'')]", OF a]
      winter_terrain_level_required_iff
        [where Program = ?P and winter_rules_apply = id
           and submitted = "map_of [(''program'', ''winter_school'')]", OF b]
      winter_terrain_level_required_iff
        [where Program = ?P and winter_rules_apply = id
           and submitted = "map_of [(''name'', ''Frankenstein Cliffs'')]", OF c]
    by auto
qed

text \<open>
  The claim as the specification words it fails: with no program submitted, which is no
  program under winter rules, the field is required.
\<close>

theorem winter_terrain_level_required_counterexample:
  "map_of ([] :: (string \<times> string) list) ''program'' = None \<and>
   winter_terrain_level_required (map_of [(''winter_school'', True), (''hiking'', False)]) id
     (map_of []) = Inr (PyBool True)"
  by (simp add: winter_terrain_level_required_def)

section \<open>TripForm: winter school trips require membership\<close>

text \<open>
  Claim C8. When the cleaned program is the winter school's, \<^verbatim>\<open>clean_membership_required\<close>
  returns \<^verbatim>\<open>True\<close> whatever was submitted for the field; for every other program, and
  when no program was cleaned, it returns the submitted value unchanged.
\<close>

theorem clean_membership_required_winter_school:
  "(cd_program cd = Some WS \<longrightarrow> clean_membership_required WS cd = Inr True) \<and>
   (cd_program cd \<noteq> Some WS \<longrightarrow> cd_membership_required cd = Some b \<longrightarrow>
      clean_membership_required WS cd = Inr b)"
  by (simp add: clean_membership_required_def)

theorem clean_membership_required_winter_school_witness:
  "clean_membership_required ''winter_school''
     \<lparr>cd_program = Some ''winter_school'', cd_membership_required = Some False,
      cd_maximum_participants = None, cd_winter_terrain_level = None, cd_leaders = None\<rparr> =
     Inr True \<and>
   clean_membership_required ''winter_school''
     \<lparr>cd_program = Some ''hiking'', cd_membership_required = Some False,
      cd_maximum_participants = None, cd_winter_terrain_level = None, cd_leaders = None\<rparr> =
     Inr False"
  using
    clean_membership_required_winter_school
      [of "\<lparr>cd_program = Some ''winter_school'', cd_membership_required = Some False,
             cd_maximum_participants = None, cd_winter_terrain_level = None, cd_leaders = None\<rparr>"
          "''winter_school''" False]
    clean_membership_required_winter_school
      [of "\<lparr>cd_program = Some ''hiking'', cd_membership_required = Some False,
             cd_maximum_participants = None, cd_winter_terrain_level = None, cd_leaders = None\<rparr>"
          "''winter_school''" False]
  by simp

section \<open>TripForm: only newly added leaders are checked\<close>

lemma exclude_pk_in_set:
  "set (exclude_pk_in selected others) = {l \<in> set selected. par_pk l \<notin> par_pk ` set others}"
  by (auto simp: exclude_pk_in_def)

lemma TripForm_clean_example:
  "TripForm_clean (map_of [(''hiking'', True)]) (\<lambda>par e. False) (\<lambda>e. ''Hiking'')
        \<lparr>trip_pk = Some 7, trip_notes = [], signup_set = [],
         trip_leaders = [\<lparr>par_pk = 1, par_name = ''Ann'', par_email = [], par_affiliation = [],
                           par_annual_dues = 0\<rparr>]\<rparr>
        \<lparr>cleaned_data =
           \<lparr>cd_program = Some ''hiking'', cd_membership_required = None,
            cd_maximum_participants = None, cd_winter_terrain_level = None,
            cd_leaders =
              Some [\<lparr>par_pk = 1, par_name = ''Ann'', par_email = [], par_affiliation = [],
                      par_annual_dues = 0\<rparr>,
                    \<lparr>par_pk = 2, par_name = ''Bob'', par_email = [], par_affiliation = [],
                      par_annual_dues = 0\<rparr>,
                    \<lparr>par_pk = 3, par_name = ''Cy'', par_email = [], par_affiliation = [],
                      par_annual_dues = 0\<rparr>]\<rparr>,
         form_errors = []\<rparr> =
   Inr \<lparr>cleaned_data =
           \<lparr>cd_program = Some ''hiking'', cd_membership_required = None,
            cd_maximum_participants = None, cd_winter_terrain_level = None,
            cd_leaders = None\<rparr>,
         form_errors = [(''leaders'', ''Bob, Cy can't lead Hiking trips'')]\<rparr>"
  by (simp add: TripForm_clean_def pk_truthy_def exclude_pk_in_def add_error_leaders_def)

text \<open>
  Claim C9. For a trip whose primary key, when it has one, is not zero, and a cleaned
  program that names a program, \<^verbatim>\<open>TripForm.clean\<close> returns, and it adds an error, which
  is then one error on the field \<^verbatim>\<open>leaders\<close>, exactly when program and leaders are both
  in the cleaned data and some selected leader who is not already a leader of the
  persisted trip cannot lead the program. Leaders already attached to a persisted trip
  are not checked: when all selected leaders are, the form is left as it was, whatever
  their ratings.
\<close>

theorem TripForm_clean_leaders_error:
  assumes pk0: "trip_pk t \<noteq> Some 0"
      and valid: "\<forall>p. cd_program (cleaned_data st) = Some p \<longrightarrow> Program p \<noteq> None"
  shows "\<exists>st'. TripForm_clean Program can_lead label t st = Inr st' \<and>
           (form_errors st' = form_errors st \<or>
            (\<exists>msg. form_errors st' = form_errors st @ [(''leaders'', msg)])) \<and>
           (form_errors st' \<noteq> form_errors st \<longleftrightarrow>
              (\<exists>p e selected.
                 cd_program (cleaned_data st) = Some p \<and>
                 cd_leaders (cleaned_data st) = Some selected \<and> Program p = Some e \<and>
                 (\<exists>l \<in> set selected.
                    (trip_pk t \<noteq> None \<longrightarrow> par_pk l \<notin> par_pk ` set (trip_leaders t)) \<and>
                    \<not> can_lead l e))) \<and>
           (trip_pk t \<noteq> None \<and>
            (\<forall>selected. cd_leaders (cleaned_data st) = Some selected \<longrightarrow>
               par_pk ` set selected \<subseteq> par_pk ` set (trip_leaders t)) \<longrightarrow> st' = st)"
proof (cases "cd_program (cleaned_data st)")
  case None
  then show ?thesis by (simp add: TripForm_clean_def)
next
  case (Some p)
  note prog = this
  show ?thesis
  proof (cases "cd_leaders (cleaned_data st)")
    case None
    with prog show ?thesis by (simp add: TripForm_clean_def)
  next
    case (Some selected)
    from valid prog obtain e where e: "Program p = Some e" by auto
    define leaders where
      "leaders = (if pk_truthy (trip_pk t) then exclude_pk_in selected (trip_leaders t) else selected)"
    define lacking where "lacking = filter (\<lambda>par. \<not> can_lead par e) leaders"
    have truthy_iff: "pk_truthy (trip_pk t) \<longleftrightarrow> trip_pk t \<noteq> None"
      using pk0 by (auto simp: pk_truthy_def split: option.splits)
    have set_leaders:
      "set leaders = {l \<in> set selected. trip_pk t \<noteq> None \<longrightarrow> par_pk l \<notin> par_pk ` set (trip_leaders t)}"
      by (auto simp: leaders_def truthy_iff exclude_pk_in_set)
    have lacking_iff:
      "lacking \<noteq> [] \<longleftrightarrow>
         (\<exists>l \<in> set selected.
            (trip_pk t \<noteq> None \<longrightarrow> par_pk l \<notin> par_pk ` set (trip_leaders t)) \<and> \<not> can_lead l e)"
      unfolding lacking_def filter_empty_conv set_leaders by auto
    have res: "TripForm_clean Program can_lead label t st =
          (if lacking \<noteq> [] then
             Inr (add_error_leaders
                    (str_join '', '' (map par_name lacking) @ '' can't lead '' @ label e @ '' trips'') st)
           else Inr st)"
      using prog Some e by (simp add: TripForm_clean_def Let_def lacking_def leaders_def)
    show ?thesis
    proof (cases "lacking = []")
      case True
      with res have "TripForm_clean Program can_lead label t st = Inr st" by simp
      moreover from True lacking_iff
      have "\<not> (\<exists>l \<in> set selected.
            (trip_pk t \<noteq> None \<longrightarrow> par_pk l \<notin> par_pk ` set (trip_leaders t)) \<and> \<not> can_lead l e)"
        by simp
      ultimately show ?thesis using prog Some e by auto
    next
      case False
      with res have r: "TripForm_clean Program can_lead label t st =
          Inr (add_error_leaders
                 (str_join '', '' (map par_name lacking) @ '' can't lead '' @ label e @ '' trips'') st)"
        by simp
      from False lacking_iff
      have ex: "\<exists>l \<in> set selected.
            (trip_pk t \<noteq> None \<longrightarrow> par_pk l \<notin> par_pk ` set (trip_leaders t)) \<and> \<not> can_lead l e"
        by simp
      then have notsub: "\<not> (trip_pk t \<noteq> None \<and> par_pk ` set selected \<subseteq> par_pk ` set (trip_leaders t))"
        by auto
      show ?thesis
        using r ex notsub prog Some e by (auto simp: add_error_leaders_def)
    qed
  qed
qed

theorem TripForm_clean_leaders_error_witness:
  "trip_pk \<lparr>trip_pk = Some 7, trip_notes = [], signup_set = [],
      trip_leaders = [\<lparr>par_pk = 1, par_name = ''Ann'', par_email = [], par_affiliation = [],
                        par_annual_dues = 0\<rparr>]\<rparr> \<noteq> Some 0 \<and>
   (\<exists>st'. TripForm_clean (map_of [(''hiking'', True)]) (\<lambda>par e. False) (\<lambda>e. ''Hiking'')
        \<lparr>trip_pk = Some 7, trip_notes = [], signup_set = [],
         trip_leaders = [\<lparr>par_pk = 1, par_name = ''Ann'', par_email = [], par_affiliation = [],
                           par_annual_dues = 0\<rparr>]\<rparr>
        \<lparr>cleaned_data =
           \<lparr>cd_program = Some ''hiking'', cd_membership_required = None,
            cd_maximum_participants = None, cd_winter_terrain_level = None,
            cd_leaders =
              Some [\<lparr>par_pk = 1, par_name = ''Ann'', par_email = [], par_affiliation = [],
                      par_annual_dues = 0\<rparr>,
                    \<lparr>par_pk = 2, par_name = ''Bob'', par_email = [], par_affiliation = [],
                      par_annual_dues = 0\<rparr>]\<rparr>,
         form_errors = []\<rparr> = Inr st' \<and>
      form_errors st' \<noteq> [])"
proof -
  let ?ann = "\<lparr>par_pk = 1, par_name = ''Ann'', par_email = [], par_affiliation = [],
                par_annual_dues = 0\<rparr>"
  let ?bob = "\<lparr>par_pk = 2, par_name = ''Bob'', par_email = [], par_affiliation = [],
                par_annual_dues = 0\<rparr>"
  let ?t = "\<lparr>trip_pk = Some 7, trip_notes = [], signup_set = [], trip_leaders = [?ann]\<rparr>"
  let ?st = "\<lparr>cleaned_data =
           \<lparr>cd_program = Some ''hiking'', cd_membership_required = None,
            cd_maximum_participants = None, cd_winter_terrain_level = None,
            cd_leaders = Some [?ann, ?bob]\<rparr>,
         form_errors = []\<rparr>"
  let ?P = "map_of [(''hiking'', True)]"
  have pk0: "trip_pk ?t \<noteq> Some 0" by simp
  have valid: "\<forall>p. cd_program (cleaned_data ?st) = Some p \<longrightarrow> ?P p \<noteq> None" by simp
  have lacks: "\<exists>p e selected.
                 cd_program (cleaned_data ?st) = Some p \<and>
                 cd_leaders (cleaned_data ?st) = Some selected \<and> ?P p = Some e \<and>
                 (\<exists>l \<in> set selected.
                    (trip_pk ?t \<noteq> None \<longrightarrow> par_pk l \<notin> par_pk ` set (trip_leaders ?t)) \<and>
                    \<not> (\<lambda>par e. False) l e)"
    by auto
  from TripForm_clean_leaders_error
         [where t = ?t and st = ?st and Program = ?P and can_lead = "\<lambda>par e. False"
            and label = "\<lambda>e. ''Hiking''", OF pk0 valid]
  obtain st' where
    r: "TripForm_clean ?P (\<lambda>par e. False) (\<lambda>e. ''Hiking'') ?t ?st = Inr st'" and
    e: "form_errors st' \<noteq> form_errors ?st \<longleftrightarrow>
          (\<exists>p e selected.
                 cd_program (cleaned_data ?st) = Some p \<and>
                 cd_leaders (cleaned_data ?st) = Some selected \<and> ?P p = Some e \<and>
                 (\<exists>l \<in> set selected.
                    (trip_pk ?t \<noteq> None \<longrightarrow> par_pk l \<notin> par_pk ` set (trip_leaders ?t)) \<and>
                    \<not> (\<lambda>par e. False) l e))"
    by blast
  from e lacks have "form_errors st' \<noteq> form_errors ?st" by blast
  then have "form_errors st' \<noteq> []" by simp
  with r pk0 show ?thesis by blast
qed

section \<open>LeaderApplicationForm: one model per activity, four fields left out\<close>

lemma map_fst_map_entry: "map fst (AList.map_entry k f al) = map fst al"
  by (induction al) auto

lemma map_fst_mark_conditional: "map fst (mark_conditional c fs) = map fst fs"
  by (simp add: mark_conditional_def map_fst_map_entry)

lemma map_fst_form_fields_of:
  "map fst
     (concat
        (map (\<lambda>f.
                if \<not> mf_editable f then []
                else if mf_name f \<in> X then []
                else (case mf_formfield f of
                        None \<Rightarrow> []
                      | Some formfield \<Rightarrow> [(mf_name f, g f formfield)]))
           xs)) =
   map mf_name
     (filter (\<lambda>f. mf_editable f \<and> mf_name f \<notin> X \<and> mf_formfield f \<noteq> None) xs)"
  by (induction xs) (auto split: option.splits)

lemma map_fst_fields_for_model:
  "map fst (fields_for_model meta) =
     map mf_name
       (filter (\<lambda>f. mf_editable f \<and> mf_name f \<notin> set (meta_exclude meta) \<and>
                     mf_formfield f \<noteq> None)
          (mc_fields (meta_model meta)))"
  unfolding fields_for_model_def
  by (rule map_fst_form_fields_of
        [where g = "\<lambda>f formfield. case map_of (meta_widgets meta) (mf_name f) of
                                    None \<Rightarrow> formfield
                                  | Some w \<Rightarrow> formfield\<lparr>fld_widget := w\<rparr>"])

text \<open>
  Claim C6. For every activity the factory returns a form whose model is
  \<^verbatim>\<open>model_from_activity(activity_enum)\<close> and which excludes \<^verbatim>\<open>archived\<close>, \<^verbatim>\<open>year\<close>,
  \<^verbatim>\<open>participant\<close> and \<^verbatim>\<open>previous_rating\<close>. The fields of the form are those of that
  model, in the model's order, that are editable, are not one of these four and have a
  form field; none of the four is a field of the form.
\<close>

theorem LeaderApplicationForm_model_and_exclude:
  "meta_model (daf_meta (LeaderApplicationForm model_from_activity activity_enum)) =
     model_from_activity activity_enum \<and>
   meta_exclude (daf_meta (LeaderApplicationForm model_from_activity activity_enum)) =
     [''archived'', ''year'', ''participant'', ''previous_rating''] \<and>
   map fst (daf_fields (LeaderApplicationForm model_from_activity activity_enum)) =
     map mf_name
       (filter (\<lambda>f. mf_editable f \<and>
                     mf_name f \<notin> {''archived'', ''year'', ''participant'', ''previous_rating''} \<and>
                     mf_formfield f \<noteq> None)
          (mc_fields (model_from_activity activity_enum))) \<and>
   (\<forall>n \<in> {''archived'', ''year'', ''participant'', ''previous_rating''}.
      n \<notin> fst ` set (daf_fields (LeaderApplicationForm model_from_activity activity_enum)))"
proof -
  let ?frm = "LeaderApplicationForm model_from_activity activity_enum"
  have m: "meta_model (daf_meta ?frm) = model_from_activity activity_enum"
    by (simp add: LeaderApplicationForm_def DynamicActivityForm_init_def
        DynamicActivityForm_Meta_def Let_def)
  have x: "meta_exclude (daf_meta ?frm) = [''archived'', ''year'', ''participant'', ''previous_rating'']"
    by (simp add: LeaderApplicationForm_def DynamicActivityForm_init_def
        DynamicActivityForm_Meta_def Let_def)
  have "map fst (daf_fields ?frm) =
          map fst (fields_for_model (DynamicActivityForm_Meta model_from_activity activity_enum))"
    by (simp add: LeaderApplicationForm_def DynamicActivityForm_init_def map_fst_mark_conditional)
  also have "\<dots> = map mf_name
       (filter (\<lambda>f. mf_editable f \<and>
                     mf_name f \<notin> {''archived'', ''year'', ''participant'', ''previous_rating''} \<and>
                     mf_formfield f \<noteq> None)
          (mc_fields (model_from_activity activity_enum)))"
    unfolding map_fst_fields_for_model
    by (simp add: DynamicActivityForm_Meta_def Let_def)
  finally have f: "map fst (daf_fields ?frm) =
     map mf_name
       (filter (\<lambda>f. mf_editable f \<and>
                     mf_name f \<notin> {''archived'', ''year'', ''participant'', ''previous_rating''} \<and>
                     mf_formfield f \<noteq> None)
          (mc_fields (model_from_activity activity_enum)))" .
  have "set (map fst (daf_fields ?frm)) \<inter>
          {''archived'', ''year'', ''participant'', ''previous_rating''} = {}"
    unfolding f by auto
  then have e: "\<forall>n \<in> {''archived'', ''year'', ''participant'', ''previous_rating''}.
      n \<notin> fst ` set (daf_fields ?frm)"
    by auto
  from m x f e show ?thesis by (intro conjI)
qed

theorem LeaderApplicationForm_model_and_exclude_witness:
  "''year'' \<notin> fst ` set (daf_fields (LeaderApplicationForm
      (\<lambda>a. \<lparr>mc_name = a @ ''leaderapplication'',
             mc_fields =
               [\<lparr>mf_name = ''id'', mf_is_TextField = False, mf_many_to_many = False,
                  mf_editable = True, mf_formfield = None\<rparr>,
                \<lparr>mf_name = ''time_created'', mf_is_TextField = False, mf_many_to_many = False,
                  mf_editable = False, mf_formfield = Some (new_field ModelField TextInput)\<rparr>,
                \<lparr>mf_name = ''participant'', mf_is_TextField = False, mf_many_to_many = False,
                  mf_editable = True, mf_formfield = Some (new_field ModelField Select)\<rparr>,
                \<lparr>mf_name = ''year'', mf_is_TextField = False, mf_many_to_many = False,
                  mf_editable = True, mf_formfield = Some (new_field ModelField TextInput)\<rparr>,
                \<lparr>mf_name = ''desired_rating'', mf_is_TextField = False, mf_many_to_many = False,
                  mf_editable = True, mf_formfield = Some (new_field ModelField TextInput)\<rparr>,
                \<lparr>mf_name = ''mentee_activities'', mf_is_TextField = True, mf_many_to_many = False,
                  mf_editable = True, mf_formfield = Some (new_field ModelField Textarea)\<rparr>]\<rparr>)
      ''climbing'')) \<and>
   map fst (daf_fields (LeaderApplicationForm
      (\<lambda>a. \<lparr>mc_name = a @ ''leaderapplication'',
             mc_fields =
               [\<lparr>mf_name = ''id'', mf_is_TextField = False, mf_many_to_many = False,
                  mf_editable = True, mf_formfield = None\<rparr>,
                \<lparr>mf_name = ''time_created'', mf_is_TextField = False, mf_many_to_many = False,
                  mf_editable = False, mf_formfield = Some (new_field ModelField TextInput)\<rparr>,
                \<lparr>mf_name = ''participant'', mf_is_TextField = False, mf_many_to_many = False,
                  mf_editable = True, mf_formfield = Some (new_field ModelField Select)\<rparr>,
                \<lparr>mf_name = ''year'', mf_is_TextField = False, mf_many_to_many = False,
                  mf_editable = True, mf_formfield = Some (new_field ModelField TextInput)\<rparr>,
                \<lparr>mf_name = ''desired_rating'', mf_is_TextField = False, mf_many_to_many = False,
                  mf_editable = True, mf_formfield = Some (new_field ModelField TextInput)\<rparr>,
                \<lparr>mf_name = ''mentee_activities'', mf_is_TextField = True, mf_many_to_many = False,
                  mf_editable = True, mf_formfield = Some (new_field ModelField Textarea)\<rparr>]\<rparr>)
      ''climbing'')) = [''desired_rating'', ''mentee_activities'']"
proof -
  let ?mfa = "\<lambda>a. \<lparr>mc_name = a @ ''leaderapplication'',
             mc_fields =
               [\<lparr>mf_name = ''id'', mf_is_TextField = False, mf_many_to_many = False,
                  mf_editable = True, mf_formfield = None\<rparr>,
                \<lparr>mf_name = ''time_created'', mf_is_TextField = False, mf_many_to_many = False,
                  mf_editable = False, mf_formfield = Some (new_field ModelField TextInput)\<rparr>,
                \<lparr>mf_name = ''participant'', mf_is_TextField = False, mf_many_to_many = False,
                  mf_editable = True, mf_formfield = Some (new_field ModelField Select)\<rparr>,
                \<lparr>mf_name = ''year'', mf_is_TextField = False, mf_many_to_many = False,
                  mf_editable = True, mf_formfield = Some (new_field ModelField TextInput)\<rparr>,
                \<lparr>mf_name = ''desired_rating'', mf_is_TextField = False, mf_many_to_many = False,
                  mf_editable = True, mf_formfield = Some (new_field ModelField TextInput)\<rparr>,
                \<lparr>mf_name = ''mentee_activities'', mf_is_TextField = True, mf_many_to_many = False,
                  mf_editable = True, mf_formfield = Some (new_field ModelField Textarea)\<rparr>]\<rparr>"
  note inst = LeaderApplicationForm_model_and_exclude
      [where model_from_activity = ?mfa and activity_enum = "''climbing''"]
  have mem: "''year'' \<in> {''archived'', ''year'', ''participant'', ''previous_rating''}"
    by simp
  from inst have
    "\<forall>n \<in> {''archived'', ''year'', ''participant'', ''previous_rating''}.
       n \<notin> fst ` set (daf_fields (LeaderApplicationForm ?mfa ''climbing''))"
    by (elim conjE)
  from this mem
  have a: "''year'' \<notin> fst ` set (daf_fields (LeaderApplicationForm ?mfa ''climbing''))"
    by (rule bspec)
  from inst have
    "map fst (daf_fields (LeaderApplicationForm ?mfa ''climbing'')) =
       map mf_name
         (filter (\<lambda>f. mf_editable f \<and>
                       mf_name f \<notin> {''archived'', ''year'', ''participant'', ''previous_rating''} \<and>
                       mf_formfield f \<noteq> None)
            (mc_fields (?mfa ''climbing'')))"
    by (elim conjE)
  then have b: "map fst (daf_fields (LeaderApplicationForm ?mfa ''climbing'')) =
      [''desired_rating'', ''mentee_activities'']"
    by simp
  from a b show ?thesis by (rule conjI)
qed

section \<open>Dues: the choices with their amounts\<close>

lemma amount_choices_nth:
  "i < length cs \<Longrightarrow>
   amount_choices d cs v ! i =
     (case cs ! i of
        (label, OptList choices) \<Rightarrow>
          Grouped label (map (\<lambda>(code, l). include_amount_in_label d v code l) choices)
      | (label, OptStr l) \<Rightarrow>
          (case include_amount_in_label d v label l of (w, annotated) \<Rightarrow> Single w annotated))"
proof (induction cs arbitrary: i)
  case Nil
  then show ?case by simp
next
  case (Cons c cs)
  obtain label opt where c: "c = (label, opt)" by (cases c)
  show ?case
  proof (cases i)
    case 0
    then show ?thesis by (simp add: c split: option_val.splits)
  next
    case (Suc j)
    with Cons.prems have "j < length cs" by simp
    from Cons.IH [OF this] Suc show ?thesis by (simp add: c)
  qed
qed

lemma length_amount_choices: "length (amount_choices d cs v) = length cs"
  by (induction cs) (auto split: option_val.splits)

text \<open>
  Claim C10. \<^verbatim>\<open>amount_choices\<close> yields one value for each entry of the affiliation
  choices, in both modes. A top-level choice yields a single choice and a group yields
  a group with the same group label; the label of every choice is annotated as
  \<^verbatim>\<open>label ($amount)\<close>, the amount being the annual dues of the affiliation code, in both
  modes alike. The value of the choice is the affiliation code when
  \<^verbatim>\<open>value_is_amount\<close> is false and that amount when it is true. The amount is written
  in the label as its decimal numeral: for an amount that is not negative, a string of
  digits that denotes the amount, without a leading zero unless it is the single digit
  0; for a negative amount, a minus sign before the numeral of its absolute value.
\<close>

theorem amount_choices_modes:
  "length (amount_choices d cs v) = length cs \<and>
   (\<forall>i < length cs.
      (\<forall>code l. cs ! i = (code, OptStr l) \<longrightarrow>
         amount_choices d cs False ! i =
           Single (PyStr code) (l @ '' ($'' @ str_of_int (d code) @ '')'') \<and>
         amount_choices d cs True ! i =
           Single (PyInt (d code)) (l @ '' ($'' @ str_of_int (d code) @ '')'')) \<and>
      (\<forall>g opts. cs ! i = (g, OptList opts) \<longrightarrow>
         amount_choices d cs False ! i =
           Grouped g (map (\<lambda>(code, l). (PyStr code, l @ '' ($'' @ str_of_int (d code) @ '')'')) opts) \<and>
         amount_choices d cs True ! i =
           Grouped g (map (\<lambda>(code, l). (PyInt (d code), l @ '' ($'' @ str_of_int (d code) @ '')''))
                        opts))) \<and>
   (\<forall>n. (0 \<le> n \<longrightarrow>
           str_of_int n \<noteq> [] \<and> list_all is_digit (str_of_int n) \<and>
           int (decimal_value (str_of_int n)) = n \<and>
           (1 < length (str_of_int n) \<longrightarrow> hd (str_of_int n) \<noteq> CHR ''0'')) \<and>
        (n < 0 \<longrightarrow> str_of_int n = CHR ''-'' # str_of_int (- n)))"
proof -
  have a: "length (amount_choices d cs v) = length cs" by (rule length_amount_choices)
  have b: "\<forall>i < length cs.
      (\<forall>code l. cs ! i = (code, OptStr l) \<longrightarrow>
         amount_choices d cs False ! i =
           Single (PyStr code) (l @ '' ($'' @ str_of_int (d code) @ '')'') \<and>
         amount_choices d cs True ! i =
           Single (PyInt (d code)) (l @ '' ($'' @ str_of_int (d code) @ '')'')) \<and>
      (\<forall>g opts. cs ! i = (g, OptList opts) \<longrightarrow>
         amount_choices d cs False ! i =
           Grouped g (map (\<lambda>(code, l). (PyStr code, l @ '' ($'' @ str_of_int (d code) @ '')'')) opts) \<and>
         amount_choices d cs True ! i =
           Grouped g (map (\<lambda>(code, l). (PyInt (d code), l @ '' ($'' @ str_of_int (d code) @ '')''))
                        opts))"
    by (auto simp: amount_choices_nth include_amount_in_label_def Let_def)
  have c: "\<forall>n. (0 \<le> n \<longrightarrow>
           str_of_int n \<noteq> [] \<and> list_all is_digit (str_of_int n) \<and>
           int (decimal_value (str_of_int n)) = n \<and>
           (1 < length (str_of_int n) \<longrightarrow> hd (str_of_int n) \<noteq> CHR ''0'')) \<and>
        (n < 0 \<longrightarrow> str_of_int n = CHR ''-'' # str_of_int (- n))"
    by (intro allI) (rule str_of_int_decimal)
  from a b c show ?thesis by (intro conjI)
qed

theorem amount_choices_modes_witness:
  "amount_choices (\<lambda>code. if code = ''MU'' then 15 else if code = ''NU'' then 40 else 105)
     [(''Undergraduate student'', OptList [(''MU'', ''MIT undergrad''), (''NU'', ''Non-MIT undergrad'')]),
      (''NA'', OptStr ''Non-affiliate'')] False ! 1 =
     Single (PyStr ''NA'') ''Non-affiliate ($105)'' \<and>
   amount_choices (\<lambda>code. if code = ''MU'' then 15 else if code = ''NU'' then 40 else 105)
     [(''Undergraduate student'', OptList [(''MU'', ''MIT undergrad''), (''NU'', ''Non-MIT undergrad'')]),
      (''NA'', OptStr ''Non-affiliate'')] True ! 1 =
     Single (PyInt 105) ''Non-affiliate ($105)'' \<and>
   amount_choices (\<lambda>code. if code = ''MU'' then 15 else if code = ''NU'' then 40 else 105)
     [(''Undergraduate student'', OptList [(''MU'', ''MIT undergrad''), (''NU'', ''Non-MIT undergrad'')]),
      (''NA'', OptStr ''Non-affiliate'')] False ! 0 =
     Grouped ''Undergraduate student''
       [(PyStr ''MU'', ''MIT undergrad ($15)''), (PyStr ''NU'', ''Non-MIT undergrad ($40)'')] \<and>
   amount_choices (\<lambda>code. if code = ''MU'' then 15 else if code = ''NU'' then 40 else 105)
     [(''Undergraduate student'', OptList [(''MU'', ''MIT undergrad''), (''NU'', ''Non-MIT undergrad'')]),
      (''NA'', OptStr ''Non-affiliate'')] True ! 0 =
     Grouped ''Undergraduate student''
       [(PyInt 15, ''MIT undergrad ($15)''), (PyInt 40, ''Non-MIT undergrad ($40)'')] \<and>
   int (decimal_value (str_of_int 105)) = 105"
proof -
  let ?cs = "[(''Undergraduate student'',
                OptList [(''MU'', ''MIT undergrad''), (''NU'', ''Non-MIT undergrad'')]),
              (''NA'', OptStr ''Non-affiliate'')]"
  let ?d = "\<lambda>code :: string. if code = ''MU'' then 15 else if code = ''NU'' then 40 else (105 :: int)"
  have s15: "str_of_int 15 = ''15''" by code_simp
  have s40: "str_of_int 40 = ''40''" by code_simp
  have s105: "str_of_int 105 = ''105''" by code_simp
  have i1: "(1::nat) < length ?cs" and i0: "(0::nat) < length ?cs" by simp_all
  have c1: "?cs ! 1 = (''NA'', OptStr ''Non-affiliate'')" by simp
  have c0: "?cs ! 0 = (''Undergraduate student'',
                OptList [(''MU'', ''MIT undergrad''), (''NU'', ''Non-MIT undergrad'')])" by simp
  note inst = amount_choices_modes [where d = ?d and cs = ?cs and v = False]
  note nth = inst [THEN conjunct2, THEN conjunct1, rule_format]
  have "amount_choices ?d ?cs False ! 1 =
       Single (PyStr ''NA'') (''Non-affiliate'' @ '' ($'' @ str_of_int (?d ''NA'') @ '')'') \<and>
     amount_choices ?d ?cs True ! 1 =
       Single (PyInt (?d ''NA'')) (''Non-affiliate'' @ '' ($'' @ str_of_int (?d ''NA'') @ '')'')"
    by (rule nth [of 1, THEN conjunct1, rule_format, OF i1 c1])
  then have a: "amount_choices ?d ?cs False ! 1 = Single (PyStr ''NA'') ''Non-affiliate ($105)'' \<and>
     amount_choices ?d ?cs True ! 1 = Single (PyInt 105) ''Non-affiliate ($105)''"
    by (simp add: s105)
  have "amount_choices ?d ?cs False ! 0 =
       Grouped ''Undergraduate student''
         (map (\<lambda>(code, l). (PyStr code, l @ '' ($'' @ str_of_int (?d code) @ '')''))
            [(''MU'', ''MIT undergrad''), (''NU'', ''Non-MIT undergrad'')]) \<and>
     amount_choices ?d ?cs True ! 0 =
       Grouped ''Undergraduate student''
         (map (\<lambda>(code, l). (PyInt (?d code), l @ '' ($'' @ str_of_int (?d code) @ '')''))
            [(''MU'', ''MIT undergrad''), (''NU'', ''Non-MIT undergrad'')])"
    by (rule nth [of 0, THEN conjunct2, rule_format, OF i0 c0])
  then have b: "amount_choices ?d ?cs False ! 0 =
     Grouped ''Undergraduate student''
       [(PyStr ''MU'', ''MIT undergrad ($15)''), (PyStr ''NU'', ''Non-MIT undergrad ($40)'')] \<and>
   amount_choices ?d ?cs True ! 0 =
     Grouped ''Undergraduate student''
       [(PyInt 15, ''MIT undergrad ($15)''), (PyInt 40, ''Non-MIT undergrad ($40)'')]"
    by (simp add: s15 s40)
  have c: "int (decimal_value (str_of_int 105)) = 105"
    using inst [THEN conjunct2, THEN conjunct2, rule_format, of 105] by simp
  from a b c show ?thesis by simp
qed

section \<open>DuesForm: the field names of the payment gateway\<close>

lemma map_of_update_other: "k \<noteq> n \<Longrightarrow> map_of (AList.update n v al) k = map_of al k"
  by (simp add: update_conv')

lemma map_fst_update_present:
  "map_of al n = Some v \<Longrightarrow> map fst (AList.update n w al) = map fst al"
  by (auto simp: update_keys dest: map_of_SomeD intro: rev_image_eqI)

lemma modify_field_Inr:
  assumes "map_of (form_fields frm) n = Some fld"
  shows "\<exists>frm'. modify_field n f frm = Inr frm' \<and>
           map fst (form_fields frm') = map fst (form_fields frm) \<and>
           form_data frm' = form_data frm \<and>
           map_of (form_fields frm') n = Some (f fld) \<and>
           (\<forall>k. k \<noteq> n \<longrightarrow> map_of (form_fields frm') k = map_of (form_fields frm) k)"
  using assms
  by (simp add: modify_field_def map_fst_update_present map_of_update_other update_conv')

lemma js_expr_Inr: "v \<noteq> PyOther True \<Longrightarrow> truthy v \<Longrightarrow> \<exists>js. js_expr v = Inr js"
  by (cases v) (auto simp: js_expr_def)

lemma fld_initial_set_attr [simp]: "fld_initial (set_attr k v fld) = fld_initial fld"
  by (simp add: set_attr_def)

lemma bind_input_Inr:
  assumes fld: "map_of (form_fields frm) n = Some fld"
      and ok: "fld_initial fld \<noteq> PyOther True"
  shows "\<exists>frm'. bind_input frm n PyNone model_name = Inr frm' \<and>
           map fst (form_fields frm') = map fst (form_fields frm) \<and>
           form_data frm' = form_data frm \<and>
           (\<forall>k. k \<noteq> n \<longrightarrow> map_of (form_fields frm') k = map_of (form_fields frm) k)"
proof -
  define initial2 where
    "initial2 = (case form_data frm n of None \<Rightarrow> fld_initial fld | Some s \<Rightarrow> PyStr s)"
  define mname where
    "mname = (case model_name of None \<Rightarrow> n | Some m \<Rightarrow> if m \<noteq> [] then m else n)"
  have i2: "initial2 \<noteq> PyOther True"
    using ok by (simp add: initial2_def split: option.splits)
  from modify_field_Inr [OF fld, of "set_attr ''data-ng-model'' (PyStr mname)"]
  obtain frm1 where
    s1: "modify_field n (set_attr ''data-ng-model'' (PyStr mname)) frm = Inr frm1" and
    k1: "map fst (form_fields frm1) = map fst (form_fields frm)" and
    d1: "form_data frm1 = form_data frm" and
    n1: "map_of (form_fields frm1) n = Some (set_attr ''data-ng-model'' (PyStr mname) fld)" and
    o1: "\<forall>k. k \<noteq> n \<longrightarrow> map_of (form_fields frm1) k = map_of (form_fields frm) k"
    by blast
  have unfold: "bind_input frm n PyNone model_name =
      (if truthy initial2 then
         bind_err (js_expr initial2)
           (\<lambda>js. modify_field n (set_attr ''data-ng-init'' (PyStr (mname @ '' = '' @ js))) frm1)
       else Inr frm1)"
    using fld s1 by (simp add: bind_input_def Let_def initial2_def mname_def bind_err_def)
  show ?thesis
  proof (cases "truthy initial2")
    case False
    with unfold k1 d1 o1 show ?thesis by simp
  next
    case True
    from js_expr_Inr [OF i2 True] obtain js where js: "js_expr initial2 = Inr js" ..
    from modify_field_Inr [OF n1, of "set_attr ''data-ng-init'' (PyStr (mname @ '' = '' @ js))"]
    obtain frm2 where
      s2: "modify_field n (set_attr ''data-ng-init'' (PyStr (mname @ '' = '' @ js))) frm1 = Inr frm2" and
      k2: "map fst (form_fields frm2) = map fst (form_fields frm1)" and
      d2: "form_data frm2 = form_data frm1" and
      o2: "\<forall>k. k \<noteq> n \<longrightarrow> map_of (form_fields frm2) k = map_of (form_fields frm1) k"
      by blast
    from unfold True js s2 have "bind_input frm n PyNone model_name = Inr frm2"
      by (simp add: bind_err_def)
    with k1 k2 d1 d2 o1 o2 show ?thesis by simp
  qed
qed

text \<open>
  Claim C7. For every participant argument, \<^verbatim>\<open>None\<close> included, and whatever data were
  submitted, constructing \<^verbatim>\<open>DuesForm\<close> succeeds; the fields of the form are exactly
  \<^verbatim>\<open>merchant_id\<close>, \<^verbatim>\<open>description\<close>, \<^verbatim>\<open>merchantDefinedData1\<close> to
  \<^verbatim>\<open>merchantDefinedData4\<close> and \<^verbatim>\<open>amount\<close>, in this order; and the first three are the
  hidden fields as declared, with the initial values \<^verbatim>\<open>MERCHANT_ID\<close>,
  \<^verbatim>\<open>membership fees.\<close> and \<^verbatim>\<open>PAYMENT_TYPE\<close>.
\<close>

theorem DuesForm_fixed_fields:
  "\<exists>frm. DuesForm_init MERCHANT_ID PAYMENT_TYPE d cs par submitted = Inr frm \<and>
     map fst (form_fields frm) =
       [''merchant_id'', ''description'', ''merchantDefinedData1'', ''merchantDefinedData2'',
        ''merchantDefinedData3'', ''merchantDefinedData4'', ''amount''] \<and>
     map_of (form_fields frm) ''merchant_id'' =
       Some ((new_field CharField HiddenInput)\<lparr>fld_initial := MERCHANT_ID\<rparr>) \<and>
     map_of (form_fields frm) ''description'' =
       Some ((new_field CharField HiddenInput)\<lparr>fld_initial := PyStr ''membership fees.''\<rparr>) \<and>
     map_of (form_fields frm) ''merchantDefinedData1'' =
       Some ((new_field CharField HiddenInput)\<lparr>fld_initial := PAYMENT_TYPE\<rparr>)"
proof -
  let ?frm0 = "\<lparr>form_fields = DuesForm_base_fields MERCHANT_ID PAYMENT_TYPE d cs,
               form_data = submitted\<rparr>"
  define branch where "branch =
    (case par of
       None \<Rightarrow>
         bind_err
           (modify_field ''merchantDefinedData3''
              (set_attr ''placeholder'' (PyStr ''tim@mit.edu'')) ?frm0)
           (modify_field ''amount'' (set_initial (PyStr [])))
     | Some p \<Rightarrow>
         bind_err (modify_field ''merchantDefinedData3'' (set_initial (PyStr (par_email p))) ?frm0)
           (\<lambda>frm1.
              bind_err (modify_field ''merchantDefinedData4''
                          (set_initial (PyStr (par_name p))) frm1)
                (\<lambda>frm2.
                   bind_err (modify_field ''merchantDefinedData2''
                               (set_initial (PyStr (par_affiliation p))) frm2)
                     (modify_field ''amount''
                        (set_initial (PyInt (par_annual_dues p)))))))"
  have init: "DuesForm_init MERCHANT_ID PAYMENT_TYPE d cs par submitted =
      bind_err branch
        (\<lambda>frm4.
           bind_err (bind_input frm4 ''merchantDefinedData2'' PyNone (Some ''affiliation''))
             (\<lambda>frm5.
                bind_err (bind_input frm5 ''merchantDefinedData3'' PyNone (Some ''email''))
                  (\<lambda>frm6. bind_input frm6 ''amount'' PyNone None)))"
    by (simp add: DuesForm_init_def branch_def Let_def)
  have "\<exists>frm4. branch = Inr frm4 \<and>
     map fst (form_fields frm4) =
       [''merchant_id'', ''description'', ''merchantDefinedData1'', ''merchantDefinedData2'',
        ''merchantDefinedData3'', ''merchantDefinedData4'', ''amount''] \<and>
     map_of (form_fields frm4) ''merchant_id'' =
       Some ((new_field CharField HiddenInput)\<lparr>fld_initial := MERCHANT_ID\<rparr>) \<and>
     map_of (form_fields frm4) ''description'' =
       Some ((new_field CharField HiddenInput)\<lparr>fld_initial := PyStr ''membership fees.''\<rparr>) \<and>
     map_of (form_fields frm4) ''merchantDefinedData1'' =
       Some ((new_field CharField HiddenInput)\<lparr>fld_initial := PAYMENT_TYPE\<rparr>) \<and>
     (\<exists>f. map_of (form_fields frm4) ''merchantDefinedData2'' = Some f \<and>
          fld_initial f \<noteq> PyOther True) \<and>
     (\<exists>f. map_of (form_fields frm4) ''merchantDefinedData3'' = Some f \<and>
          fld_initial f \<noteq> PyOther True) \<and>
     (\<exists>f. map_of (form_fields frm4) ''amount'' = Some f \<and> fld_initial f \<noteq> PyOther True)"
    unfolding branch_def
    by (cases par)
      (simp_all add: DuesForm_base_fields_def modify_field_def bind_err_def set_attr_def
        set_initial_def new_field_def)
  then obtain frm4 f2 f3 fa where
    b4: "branch = Inr frm4" and
    k4: "map fst (form_fields frm4) =
       [''merchant_id'', ''description'', ''merchantDefinedData1'', ''merchantDefinedData2'',
        ''merchantDefinedData3'', ''merchantDefinedData4'', ''amount'']" and
    m4: "map_of (form_fields frm4) ''merchant_id'' =
       Some ((new_field CharField HiddenInput)\<lparr>fld_initial := MERCHANT_ID\<rparr>)" and
    d4: "map_of (form_fields frm4) ''description'' =
       Some ((new_field CharField HiddenInput)\<lparr>fld_initial := PyStr ''membership fees.''\<rparr>)" and
    p4: "map_of (form_fields frm4) ''merchantDefinedData1'' =
       Some ((new_field CharField HiddenInput)\<lparr>fld_initial := PAYMENT_TYPE\<rparr>)" and
    f2: "map_of (form_fields frm4) ''merchantDefinedData2'' = Some f2"
        "fld_initial f2 \<noteq> PyOther True" and
    f3: "map_of (form_fields frm4) ''merchantDefinedData3'' = Some f3"
        "fld_initial f3 \<noteq> PyOther True" and
    fa: "map_of (form_fields frm4) ''amount'' = Some fa" "fld_initial fa \<noteq> PyOther True"
    by (elim exE conjE) (rule that, assumption+)
  from bind_input_Inr [OF f2, of "Some ''affiliation''"] obtain frm5 where
    b5: "bind_input frm4 ''merchantDefinedData2'' PyNone (Some ''affiliation'') = Inr frm5" and
    k5: "map fst (form_fields frm5) = map fst (form_fields frm4)" and
    o5: "\<forall>k. k \<noteq> ''merchantDefinedData2'' \<longrightarrow>
             map_of (form_fields frm5) k = map_of (form_fields frm4) k"
    by (elim exE conjE) (rule that, assumption+)
  have f3': "map_of (form_fields frm5) ''merchantDefinedData3'' = Some f3"
    using o5 f3(1) by simp
  from bind_input_Inr [OF f3' f3(2), of "Some ''email''"] obtain frm6 where
    b6: "bind_input frm5 ''merchantDefinedData3'' PyNone (Some ''email'') = Inr frm6" and
    k6: "map fst (form_fields frm6) = map fst (form_fields frm5)" and
    o6: "\<forall>k. k \<noteq> ''merchantDefinedData3'' \<longrightarrow>
             map_of (form_fields frm6) k = map_of (form_fields frm5) k"
    by (elim exE conjE) (rule that, assumption+)
  have fa': "map_of (form_fields frm6) ''amount'' = Some fa"
    using o5 o6 fa(1) by simp
  from bind_input_Inr [OF fa' fa(2), of None] obtain frm7 where
    b7: "bind_input frm6 ''amount'' PyNone None = Inr frm7" and
    k7: "map fst (form_fields frm7) = map fst (form_fields frm6)" and
    o7: "\<forall>k. k \<noteq> ''amount'' \<longrightarrow> map_of (form_fields frm7) k = map_of (form_fields frm6) k"
    by (elim exE conjE) (rule that, assumption+)
  have res: "DuesForm_init MERCHANT_ID PAYMENT_TYPE d cs par submitted = Inr frm7"
    by (simp add: init b4 b5 b6 b7 bind_err_def)
  have keys: "map fst (form_fields frm7) =
       [''merchant_id'', ''description'', ''merchantDefinedData1'', ''merchantDefinedData2'',
        ''merchantDefinedData3'', ''merchantDefinedData4'', ''amount'']"
    by (simp only: k7 k6 k5 k4)
  have same: "map_of (form_fields frm7) k = map_of (form_fields frm4) k"
    if "k \<noteq> ''merchantDefinedData2''" "k \<noteq> ''merchantDefinedData3''" "k \<noteq> ''amount''" for k
    using that o5 o6 o7 by simp
  have m7: "map_of (form_fields frm7) ''merchant_id'' =
       Some ((new_field CharField HiddenInput)\<lparr>fld_initial := MERCHANT_ID\<rparr>)"
    using same [of "''merchant_id''"] m4 by simp
  have d7: "map_of (form_fields frm7) ''description'' =
       Some ((new_field CharField HiddenInput)\<lparr>fld_initial := PyStr ''membership fees.''\<rparr>)"
    using same [of "''description''"] d4 by simp
  have p7: "map_of (form_fields frm7) ''merchantDefinedData1'' =
       Some ((new_field CharField HiddenInput)\<lparr>fld_initial := PAYMENT_TYPE\<rparr>)"
    using same [of "''merchantDefinedData1''"] p4 by simp
  from res keys m7 d7 p7 show ?thesis by (intro exI [of _ frm7] conjI)
qed

theorem DuesForm_fixed_fields_witness:
  "\<exists>frm. DuesForm_init (PyStr ''mit_sao_mitoc'') (PyStr ''membership'') (\<lambda>code. 40)
           [(''NA'', OptStr ''Non-affiliate'')]
           (Some \<lparr>par_pk = 1, par_name = ''Tim Beaver'', par_email = ''tim@mit.edu'',
                   par_affiliation = ''NA'', par_annual_dues = 40\<rparr>)
           (map_of []) = Inr frm \<and>
     map fst (form_fields frm) =
       [''merchant_id'', ''description'', ''merchantDefinedData1'', ''merchantDefinedData2'',
        ''merchantDefinedData3'', ''merchantDefinedData4'', ''amount''] \<and>
     map_of (form_fields frm) ''merchant_id'' =
       Some ((new_field CharField HiddenInput)\<lparr>fld_initial := PyStr ''mit_sao_mitoc''\<rparr>) \<and>
     map_of (form_fields frm) ''description'' =
       Some ((new_field CharField HiddenInput)\<lparr>fld_initial := PyStr ''membership fees.''\<rparr>) \<and>
     map_of (form_fields frm) ''merchantDefinedData1'' =
       Some ((new_field CharField HiddenInput)\<lparr>fld_initial := PyStr ''membership''\<rparr>)"
  by (rule DuesForm_fixed_fields)

end
